theory Spec2Isabelle
  imports Complex_Main "HOL-Library.AList" "HOL-Library.Sublist"
begin

section \<open>JavaScript values\<close>

subsection \<open>Numbers\<close>

text \<open>
  A JavaScript number is \<open>NaN\<close>, one of the two infinities, or a finite value. Finite
  values are exact reals here: the rounding of IEEE doubles and the sign of zero are
  not part of this model. Comparisons with \<open>NaN\<close> are false, \<open>Math.min\<close> and
  \<open>Math.max\<close> return \<open>NaN\<close> as soon as one argument is \<open>NaN\<close>.
\<close>

datatype jsnum = NaN | NegInf | Fin real | PosInf

text \<open>\<open>a < b\<close> and \<open>a <= b\<close>; \<open>a > b\<close> is \<open>js_lt b a\<close> and \<open>a >= b\<close> is \<open>js_le b a\<close>.\<close>

fun js_lt :: "jsnum \<Rightarrow> jsnum \<Rightarrow> bool" where
  "js_lt (Fin x) (Fin y) = (x < y)"
| "js_lt NegInf (Fin y) = True"
| "js_lt NegInf PosInf = True"
| "js_lt (Fin x) PosInf = True"
| "js_lt _ _ = False"

fun js_le :: "jsnum \<Rightarrow> jsnum \<Rightarrow> bool" where
  "js_le (Fin x) (Fin y) = (x \<le> y)"
| "js_le NegInf (Fin y) = True"
| "js_le NegInf PosInf = True"
| "js_le (Fin x) PosInf = True"
| "js_le NegInf NegInf = True"
| "js_le PosInf PosInf = True"
| "js_le _ _ = False"

definition isNaN :: "jsnum \<Rightarrow> bool" where
  "isNaN a = (a = NaN)"

definition Math_min :: "jsnum \<Rightarrow> jsnum \<Rightarrow> jsnum" where
  "Math_min a b = (if a = NaN \<or> b = NaN then NaN else if js_lt b a then b else a)"

definition Math_max :: "jsnum \<Rightarrow> jsnum \<Rightarrow> jsnum" where
  "Math_max a b = (if a = NaN \<or> b = NaN then NaN else if js_lt a b then b else a)"

fun Math_floor :: "jsnum \<Rightarrow> jsnum" where
  "Math_floor (Fin x) = Fin (of_int \<lfloor>x\<rfloor>)"
| "Math_floor a = a"

text \<open>\<open>a * b\<close>: an infinity times zero is \<open>NaN\<close>.\<close>

fun js_mul :: "jsnum \<Rightarrow> jsnum \<Rightarrow> jsnum" where
  "js_mul (Fin x) (Fin y) = Fin (x * y)"
| "js_mul (Fin x) PosInf = (if x = 0 then NaN else if 0 < x then PosInf else NegInf)"
| "js_mul (Fin x) NegInf = (if x = 0 then NaN else if 0 < x then NegInf else PosInf)"
| "js_mul PosInf (Fin y) = (if y = 0 then NaN else if 0 < y then PosInf else NegInf)"
| "js_mul NegInf (Fin y) = (if y = 0 then NaN else if 0 < y then NegInf else PosInf)"
| "js_mul PosInf PosInf = PosInf"
| "js_mul NegInf NegInf = PosInf"
| "js_mul PosInf NegInf = NegInf"
| "js_mul NegInf PosInf = NegInf"
| "js_mul _ _ = NaN"

text \<open>\<open>a + b\<close> on numbers: opposite infinities add up to \<open>NaN\<close>.\<close>

fun js_add :: "jsnum \<Rightarrow> jsnum \<Rightarrow> jsnum" where
  "js_add (Fin x) (Fin y) = Fin (x + y)"
| "js_add (Fin x) PosInf = PosInf"
| "js_add (Fin x) NegInf = NegInf"
| "js_add PosInf (Fin y) = PosInf"
| "js_add NegInf (Fin y) = NegInf"
| "js_add PosInf PosInf = PosInf"
| "js_add NegInf NegInf = NegInf"
| "js_add _ _ = NaN"

text \<open>\<open>a / c\<close> for a positive finite literal \<open>c\<close> (the source only divides by 100).\<close>

fun js_div_by :: "jsnum \<Rightarrow> real \<Rightarrow> jsnum" where
  "js_div_by (Fin x) c = Fin (x / c)"
| "js_div_by a c = a"

text \<open>Truthiness of a number: everything but \<open>NaN\<close> and zero.\<close>

definition truthy_num :: "jsnum \<Rightarrow> bool" where
  "truthy_num a = (a \<noteq> NaN \<and> a \<noteq> Fin 0)"

subsection \<open>Values of any type\<close>

text \<open>
  The values that JSON can carry, and \<open>undefined\<close>. They are the raw payloads the node
  answers with and the values a caller may attach to the player's data bag. An object
  is the list of its own properties in insertion order.
\<close>

datatype jsvalue =
    JUndefined
  | JNull
  | JBool bool
  | JNum jsnum
  | JStr string
  | JArr "jsvalue list"
  | JObj "(string \<times> jsvalue) list"

fun truthy :: "jsvalue \<Rightarrow> bool" where
  "truthy JUndefined = False"
| "truthy JNull = False"
| "truthy (JBool b) = b"
| "truthy (JNum a) = truthy_num a"
| "truthy (JStr s) = (s \<noteq> [])"
| "truthy (JArr xs) = True"
| "truthy (JObj kvs) = True"

text \<open>\<open>String.prototype.startsWith\<close>: \<open>v.startsWith(s)\<close>.\<close>

definition startsWith :: "string \<Rightarrow> string \<Rightarrow> bool" where
  "startsWith v s = prefix s v"

text \<open>
  A property of an options object is absent, present with the value \<open>undefined\<close>, or
  present with a value: object spread copies the last two and skips the first.
\<close>

datatype 'a property = Absent | Undefined | Val 'a

section \<open>The collaborators of a player\<close>

subsection \<open>Tracks and the queue\<close>

text \<open>
  Modelled from the spec: the type \<open>Track\<close> (\<open>./Track\<close>) is not among the sources.
  These are the fields of a track that \<open>Player.ts\<close> reads: \<open>track.encodedTrack\<close>,
  \<open>track.info.duration\<close>, \<open>track.info.isSeekable\<close> and \<open>track.info.isStream\<close>.
\<close>

record trackInfo =
  duration :: jsnum
  isSeekable :: bool
  isStream :: bool

record track =
  encodedTrack :: "string property"
  info :: trackInfo

text \<open>
  Modelled from the spec: the class \<open>Queue\<close> (\<open>./Queue\<close>) is not among the sources.
  The spec describes it as an ordered sequence of pending tracks, one nullable
  current-track slot and a size counter.
\<close>

record queue =
  tracks :: "track list"
  currentTrack :: "track option"

text \<open>Modelled from the spec: \<open>queue.size\<close>, the number of pending tracks.\<close>

definition size_q :: "queue \<Rightarrow> nat" where
  "size_q q = length (tracks q)"

text \<open>
  Modelled from the spec: \<open>queue.splice(start, deleteCount)\<close> removes \<open>deleteCount\<close>
  pending tracks starting at index \<open>start\<close>, as \<open>Array.prototype.splice\<close> does; a
  negative count removes nothing.
\<close>

definition splice :: "nat \<Rightarrow> int \<Rightarrow> queue \<Rightarrow> queue" where
  "splice start deleteCount q =
     q\<lparr>tracks := take start (tracks q) @ drop (start + nat deleteCount) (tracks q)\<rparr>"

text \<open>
  Modelled from the spec: \<open>queue.isTrack(t)\<close>, whether \<open>t\<close> is a member of the queue's
  track set, and \<open>queue.setCurrent(t)\<close>, which makes \<open>t\<close> the current track.
\<close>

definition isTrack :: "queue \<Rightarrow> track \<Rightarrow> bool" where
  "isTrack q t = (t \<in> set (tracks q))"

definition setCurrent :: "track \<Rightarrow> queue \<Rightarrow> queue" where
  "setCurrent t q = q\<lparr>currentTrack := Some t\<rparr>"

text \<open>
  Modelled from the spec: \<open>queue._trackEnd(addBackToQueue)\<close> advances past the end of
  the current track. With queue repeat the ended track goes back to the end of the
  pending sequence; the first pending track, if there is one, leaves the pending
  sequence and becomes the current track.
\<close>

definition trackEnd :: "bool \<Rightarrow> queue \<Rightarrow> queue" where
  "trackEnd addBackToQueue q =
     (let pending = (case currentTrack q of
                       Some t \<Rightarrow> if addBackToQueue then tracks q @ [t] else tracks q
                     | None \<Rightarrow> tracks q)
      in case pending of
           [] \<Rightarrow> q\<lparr>tracks := [], currentTrack := None\<rparr>
         | t # ts \<Rightarrow> q\<lparr>tracks := ts, currentTrack := Some t\<rparr>)"

subsection \<open>Nodes and the manager\<close>

text \<open>
  Modelled from the spec: the class \<open>LavalinkNode\<close> (\<open>./Node\<close>) is not among the
  sources. A node, as far as the player reads it: \<open>regions\<close> is
  \<open>node.options?.regions\<close>, the sequence of region codes, with \<open>None\<close> when the
  options or the list are missing.
\<close>

record lavalinkNode =
  nodeId :: string
  regions :: "string list option"

text \<open>
  Modelled from the spec: the class \<open>LavalinkManager\<close> (\<open>./LavalinkManager\<close>) is
  not among the sources. What the player reads of its manager: \<open>nodeManager.leastUsedNodes\<close>, which the
  node pool hands over sorted by ascending load, and of \<open>options.playerOptions\<close> the
  optional \<open>volumeDecrementer\<close> and the flag \<open>applyVolumeAsFilter\<close> (\<open>False\<close> when
  it is not set). No operation of the player writes to the manager.
\<close>

record lavalinkManager =
  leastUsedNodes :: "lavalinkNode list"
  volumeDecrementer :: "jsnum option"
  applyVolumeAsFilter :: bool

text \<open>\<open>if (volumeDecrementer)\<close>: set, and neither zero nor \<open>NaN\<close>.\<close>

definition has_decrementer :: "lavalinkManager \<Rightarrow> bool" where
  "has_decrementer m = (case volumeDecrementer m of None \<Rightarrow> False | Some d \<Rightarrow> truthy_num d)"

text \<open>The factor itself; only read where \<open>has_decrementer\<close> holds.\<close>

definition decrementer :: "lavalinkManager \<Rightarrow> jsnum" where
  "decrementer m = (case volumeDecrementer m of None \<Rightarrow> Fin 1 | Some d \<Rightarrow> d)"

subsection \<open>Update payloads\<close>

text \<open>
  The argument of \<open>node.updatePlayer\<close>: the guild id, the sibling flag \<open>noReplace\<close>
  and the \<open>playerOptions\<close> object. \<open>null\<close> for the encoded track is \<open>Val None\<close>.
  Filter data and voice options are raw values: the player writes
  \<open>filters: { volume }\<close> in \<open>setVolume\<close> and passes on what a play call brings.
\<close>

record updateOptions =
  u_encodedTrack :: "string option property"
  u_identifier :: "string property"
  u_position :: "jsnum property"
  u_endTime :: "jsnum property"
  u_paused :: "bool property"
  u_volume :: "jsnum property"
  u_filters :: "jsvalue property"
  u_voice :: "jsvalue property"

definition no_options :: updateOptions where
  "no_options = \<lparr>u_encodedTrack = Absent, u_identifier = Absent, u_position = Absent,
     u_endTime = Absent, u_paused = Absent, u_volume = Absent, u_filters = Absent,
     u_voice = Absent\<rparr>"

record playerUpdate =
  u_guildId :: string
  u_noReplace :: "bool property"
  playerOptions :: updateOptions

section \<open>The player\<close>

text \<open>
  \<open>PlayerOptions\<close>, the argument of the constructor, with the properties that the
  constructor reads. \<open>None\<close> is a property that is not set.
\<close>

record playerCreateOptions =
  o_guildId :: string
  o_voiceChannelId :: string
  o_textChannelId :: "string option"
  o_volume :: "jsnum option"
  o_vcRegion :: "string option"

datatype repeatMode = RepeatOff | RepeatTrack | RepeatQueue

text \<open>
  The state of a \<open>Player\<close>. \<open>sent\<close> is not a field of the class: it records, in
  order, every payload handed to \<open>node.updatePlayer\<close>. The latency field \<open>ping\<close> is
  computed from the clock and is left out.
\<close>

record player =
  guildId :: string
  voiceChannelId :: "string option"
  textChannelId :: "string option"
  playing :: bool
  paused :: bool
  repeatMode :: repeatMode
  volume :: jsnum
  lavalinkVolume :: jsnum
  position :: jsnum
  data :: "(string \<times> jsvalue) list"
  LavalinkManager :: lavalinkManager
  node :: lavalinkNode
  queue :: queue
  sent :: "playerUpdate list"

text \<open>
  What an operation throws: the class of the error and its message. A rejection of
  \<open>node.updatePlayer\<close> is passed on as it is.
\<close>

datatype error = Error string | RangeError string | TypeError string | TransportError

datatype 'a result = Returned 'a | Threw error

text \<open>
  The errors that the player itself throws, named after the failures of the
  specification; each is the error class and the message of the source.
\<close>

definition NoNodeAvailable :: error where
  "NoNodeAvailable = Error ''No available Node was found, please add a LavalinkNode to the Manager via Manager.NodeManager#createNode''"

definition NoTrack :: error where
  "NoTrack = Error ''There is no Track in the Queue, nor provided in the PlayOptions''"

definition InvalidPlayPosition :: error where
  "InvalidPlayPosition = Error ''PlayerOption#position must be a positive number, less than track's duration''"

definition InvalidPlayVolume :: error where
  "InvalidPlayVolume = Error ''PlayerOption#volume must be a positive number''"

definition InvalidPlayEndTime :: error where
  "InvalidPlayEndTime = Error ''PlayerOption#endTime must be a positive number, less than track's duration''"

definition EndTimeBeforePosition :: error where
  "EndTimeBeforePosition = Error ''PlayerOption#endTime must be bigger than PlayerOption#position''"

definition InvalidVolume :: error where
  "InvalidVolume = TypeError ''Volume must be a number.''"

definition AlreadyPaused :: error where
  "AlreadyPaused = Error ''Player is already paused - not able to pause.''"

definition NotPaused :: error where
  "NotPaused = Error ''Player isn't paused - not able to resume.''"

definition InvalidPosition :: error where
  "InvalidPosition = RangeError ''Position must be a number.''"

definition NotSeekable :: error where
  "NotSeekable = RangeError ''Current Track is not seekable / a stream''"

definition InvalidRepeatMode :: error where
  "InvalidRepeatMode =
     RangeError (''Repeatmode must be either 'off', 'track', or 'queue'' @ [CHR 0x27])"

text \<open>One error for an empty queue and for a skip beyond the queue.\<close>

definition SkipOutOfRange :: error where
  "SkipOutOfRange = RangeError ''Can't skip more than the queue size''"

text \<open>
  \<open>await this.node.updatePlayer(u)\<close>: the call is made, and the node acknowledges
  (\<open>ack\<close>) or the transport fails. Every operation returns its result and the state
  it leaves behind, also when it throws.
\<close>

definition updatePlayer :: "bool \<Rightarrow> playerUpdate \<Rightarrow> player \<Rightarrow> unit result \<times> player" where
  "updatePlayer ack u p =
     (if ack then Returned () else Threw TransportError, p\<lparr>sent := sent p @ [u]\<rparr>)"

subsection \<open>The data bag\<close>

text \<open>\<open>set(key, value)\<close>: \<open>this.data[key] = value\<close>.\<close>

definition set_data :: "string \<Rightarrow> jsvalue \<Rightarrow> player \<Rightarrow> player" where
  "set_data key v p = p\<lparr>data := AList.update key v (data p)\<rparr>"

text \<open>\<open>get(key)\<close>: \<open>this.data[key]\<close>, \<open>undefined\<close> for a key that is not set.\<close>

definition get_data :: "string \<Rightarrow> player \<Rightarrow> jsvalue" where
  "get_data key p = (case map_of (data p) key of None \<Rightarrow> JUndefined | Some v \<Rightarrow> v)"

text \<open>
  \<open>clearData()\<close>: \<open>toKeep\<close> is computed once, then the loop visits every key and
  deletes it unless \<open>toKeep\<close> includes it.
\<close>

definition clearData :: "player \<Rightarrow> player" where
  "clearData p =
     (let toKeep = filter (\<lambda>v. startsWith v ''internal_'') (map fst (data p))
      in p\<lparr>data := fold (\<lambda>key d. if key \<in> set toKeep then d else AList.delete key d)
                        (map fst (data p)) (data p)\<rparr>)"

text \<open>\<open>getAllData()\<close>: the entries whose key does not start with \<open>internal_\<close>.\<close>

definition getAllData :: "player \<Rightarrow> (string \<times> jsvalue) list" where
  "getAllData p = filter (\<lambda>v. \<not> startsWith (fst v) ''internal_'') (data p)"

subsection \<open>Construction\<close>

text \<open>
  The node of a new player (line 121 of \<open>Player.ts\<close>):
  \<open>leastUsedNodes.filter(v => options.vcRegion ? v.options?.regions?.includes(options.vcRegion) : true)[0]
   || leastUsedNodes[0] || null\<close>.
  An empty string for the region is falsy, so it filters nothing.
  \<open>advertises r v\<close> is \<open>v.options?.regions?.includes(r)\<close>.
\<close>

definition advertises :: "string \<Rightarrow> lavalinkNode \<Rightarrow> bool" where
  "advertises r v = (case regions v of None \<Rightarrow> False | Some rs \<Rightarrow> r \<in> set rs)"

definition selectNode :: "lavalinkNode list \<Rightarrow> string option \<Rightarrow> lavalinkNode option" where
  "selectNode pool vcRegion =
     (case filter (\<lambda>v. case vcRegion of
                          None \<Rightarrow> True
                        | Some r \<Rightarrow> if r = [] then True else advertises r v)
                  pool of
        n # _ \<Rightarrow> Some n
      | [] \<Rightarrow> (case pool of n # _ \<Rightarrow> Some n | [] \<Rightarrow> None))"

text \<open>The queue a new player starts with.\<close>

definition new_queue :: queue where
  "new_queue = \<lparr>tracks = [], currentTrack = None\<rparr>"

subsection \<open>Volume\<close>

text \<open>
  The three steps that \<open>setVolume\<close> and \<open>play\<close> share:
  \<open>Math.max(Math.min(volume, 500), 0)\<close>; the multiplication by the decrementer
  when one is configured (and, in \<open>setVolume\<close>, not ignored); and
  \<open>Math.floor(volume * 100) / 100\<close>.
\<close>

definition clamp_volume :: "jsnum \<Rightarrow> jsnum" where
  "clamp_volume v = Math_max (Math_min v (Fin 500)) (Fin 0)"

definition scaled_volume :: "jsnum \<Rightarrow> bool \<Rightarrow> lavalinkManager \<Rightarrow> jsnum" where
  "scaled_volume v ignoreVolumeDecrementer mgr =
     (if has_decrementer mgr \<and> \<not> ignoreVolumeDecrementer then js_mul v (decrementer mgr) else v)"

definition floor2 :: "jsnum \<Rightarrow> jsnum" where
  "floor2 v = js_div_by (Math_floor (js_mul v (Fin 100))) 100"

text \<open>
  \<open>setVolume(volume, ignoreVolumeDecrementer = false)\<close>. The local \<open>volume\<close> of the
  source is \<open>vol\<close> here once it has been clamped and scaled.
\<close>

definition setVolume :: "jsnum \<Rightarrow> bool \<Rightarrow> bool \<Rightarrow> player \<Rightarrow> unit result \<times> player" where
  "setVolume v ignoreVolumeDecrementer ack p =
     (if isNaN v then (Threw InvalidVolume, p)
      else
        let p1 = p\<lparr>volume := clamp_volume v\<rparr>;
            vol = scaled_volume (volume p1) ignoreVolumeDecrementer (LavalinkManager p1);
            p2 = p1\<lparr>lavalinkVolume := floor2 vol\<rparr>
        in if applyVolumeAsFilter (LavalinkManager p2)
           then updatePlayer ack
                  \<lparr>u_guildId = guildId p2, u_noReplace = Absent,
                   playerOptions = no_options
                     \<lparr>u_filters := Val (JObj [(''volume'', JNum (js_div_by vol 100))])\<rparr>\<rparr> p2
           else updatePlayer ack
                  \<lparr>u_guildId = guildId p2, u_noReplace = Absent,
                   playerOptions = no_options\<lparr>u_volume := Val vol\<rparr>\<rparr> p2)"

text \<open>
  The constructor. It throws when no node is found, and then there is no player. The
  \<open>playerCreate\<close> event goes to the manager and is not modelled. The
  call of \<open>setVolume\<close> for a start volume is not awaited: the fields are written and
  the payload is handed to the node before the constructor goes on, and a rejection
  cannot abort the construction.
\<close>

definition constructor :: "playerCreateOptions \<Rightarrow> lavalinkManager \<Rightarrow> bool \<Rightarrow> error + player" where
  "constructor options mgr ack =
     (case selectNode (leastUsedNodes mgr) (o_vcRegion options) of
        None \<Rightarrow> Inl NoNodeAvailable
      | Some n \<Rightarrow>
          let p0 = \<lparr>guildId = o_guildId options,
                    voiceChannelId = Some (o_voiceChannelId options),
                    textChannelId = (case o_textChannelId options of
                                       None \<Rightarrow> None
                                     | Some c \<Rightarrow> if c = [] then None else Some c),
                    playing = False, paused = False, repeatMode = RepeatOff,
                    volume = Fin 100, lavalinkVolume = Fin 100, position = Fin 0,
                    data = [], LavalinkManager = mgr, node = n, queue = new_queue,
                    sent = []\<rparr>;
              p1 = (if has_decrementer mgr
                    then p0\<lparr>volume := js_mul (volume p0) (decrementer mgr)\<rparr> else p0);
              p2 = (case o_volume options of
                      None \<Rightarrow> p1
                    | Some v \<Rightarrow> if \<not> isNaN v then snd (setVolume v False ack p1) else p1)
          in Inr (p2\<lparr>queue := new_queue\<rparr>))"

subsection \<open>Play\<close>

text \<open>\<open>PlayOptions\<close>. A call without options is a call with every property absent.\<close>

record playOptions =
  po_track :: "track property"
  po_encodedTrack :: "string option property"
  po_identifier :: "string property"
  po_position :: "jsnum property"
  po_endTime :: "jsnum property"
  po_noReplace :: "bool property"
  po_paused :: "bool property"
  po_volume :: "jsnum property"
  po_filters :: "jsvalue property"
  po_voice :: "jsvalue property"

definition no_play_options :: playOptions where
  "no_play_options = \<lparr>po_track = Absent, po_encodedTrack = Absent, po_identifier = Absent,
     po_position = Absent, po_endTime = Absent, po_noReplace = Absent, po_paused = Absent,
     po_volume = Absent, po_filters = Absent, po_voice = Absent\<rparr>"

text \<open>
  Lines 134 and 135: a track of the options that the queue knows becomes the current
  track; without a current track and with pending tracks the queue advances.
\<close>

definition select_current :: "playOptions \<Rightarrow> player \<Rightarrow> player" where
  "select_current options p =
     (let p1 = (case po_track options of
                  Val t \<Rightarrow> if isTrack (queue p) t
                           then p\<lparr>queue := setCurrent t (queue p)\<rparr> else p
                | _ \<Rightarrow> p)
      in if currentTrack (queue p1) = None \<and> size_q (queue p1) \<noteq> 0
         then p1\<lparr>queue := trackEnd (repeatMode p1 = RepeatQueue) (queue p1)\<rparr>
         else p1)"

text \<open>
  Lines 139 to 145: a volume option that is a number and not \<open>NaN\<close> is clamped into
  \<open>this.volume\<close>, scaled by the decrementer, floored to two decimals into
  \<open>this.lavalinkVolume\<close>, and the scaled value is written back into the options.
\<close>

definition apply_volume_option :: "playOptions \<Rightarrow> player \<Rightarrow> player \<times> playOptions" where
  "apply_volume_option options p =
     (case po_volume options of
        Val v \<Rightarrow>
          if \<not> isNaN v then
            let p1 = p\<lparr>volume := clamp_volume v\<rparr>;
                vol = scaled_volume (volume p1) False (LavalinkManager p1)
            in (p1\<lparr>lavalinkVolume := floor2 vol\<rparr>, options\<lparr>po_volume := Val vol\<rparr>)
          else (p, options)
      | _ \<Rightarrow> (p, options))"

text \<open>\<open>{ key: dflt, ...options }\<close> for one key: a property of the options wins when present.\<close>

definition spread :: "'a property \<Rightarrow> 'a property \<Rightarrow> 'a property" where
  "spread dflt x = (case x of Absent \<Rightarrow> dflt | _ \<Rightarrow> x)"

text \<open>
  Lines 148 to 155 and 161: the payload, with its three defaults, without the
  properties \<open>track\<close> and \<open>noReplace\<close>.
\<close>

definition finalOptions :: "track \<Rightarrow> playOptions \<Rightarrow> player \<Rightarrow> updateOptions" where
  "finalOptions t options p =
     \<lparr>u_encodedTrack = spread (case encodedTrack t of
                                  Val e \<Rightarrow> Val (Some e) | Undefined \<Rightarrow> Undefined | Absent \<Rightarrow> Undefined)
                               (po_encodedTrack options),
      u_identifier = po_identifier options,
      u_position = spread (Val (Fin 0)) (po_position options),
      u_endTime = po_endTime options,
      u_paused = po_paused options,
      u_volume = spread (Val (lavalinkVolume p)) (po_volume options),
      u_filters = po_filters options,
      u_voice = po_voice options\<rparr>"

text \<open>
  The four checks of lines 157 to 160, on the payload and the track's duration. A
  property that is \<open>undefined\<close> passes; a number passes the first and the third
  check when it is not \<open>NaN\<close>, not negative and less than the duration.
\<close>

definition outside_track :: "jsnum \<Rightarrow> jsnum \<Rightarrow> bool" where
  "outside_track x d = (isNaN x \<or> js_lt x (Fin 0) \<or> js_le d x)"

definition invalid_position :: "updateOptions \<Rightarrow> jsnum \<Rightarrow> bool" where
  "invalid_position fo d = (case u_position fo of Val x \<Rightarrow> outside_track x d | _ \<Rightarrow> False)"

definition invalid_volume :: "updateOptions \<Rightarrow> bool" where
  "invalid_volume fo = (case u_volume fo of Val x \<Rightarrow> isNaN x \<or> js_lt x (Fin 0) | _ \<Rightarrow> False)"

definition invalid_endTime :: "updateOptions \<Rightarrow> jsnum \<Rightarrow> bool" where
  "invalid_endTime fo d = (case u_endTime fo of Val x \<Rightarrow> outside_track x d | _ \<Rightarrow> False)"

definition endTime_before_position :: "updateOptions \<Rightarrow> bool" where
  "endTime_before_position fo =
     (case (u_position fo, u_endTime fo) of
        (Val x, Val e) \<Rightarrow> js_lt e x
      | _ \<Rightarrow> False)"

text \<open>\<open>play(options)\<close>.\<close>

definition play :: "playOptions \<Rightarrow> bool \<Rightarrow> player \<Rightarrow> unit result \<times> player" where
  "play options ack p =
     (let p1 = select_current options p
      in case currentTrack (queue p1) of
           None \<Rightarrow>
             (Threw NoTrack, p1)
         | Some t \<Rightarrow>
             let p2 = fst (apply_volume_option options p1);
                 options2 = snd (apply_volume_option options p1);
                 p3 = set_data ''lastposition'' (JNum (position p2)) p2;
                 fo = finalOptions t options2 p3
             in if invalid_position fo (duration (info t))
                then (Threw InvalidPlayPosition, p3)
                else if invalid_volume fo
                then (Threw InvalidPlayVolume, p3)
                else if invalid_endTime fo (duration (info t))
                then (Threw InvalidPlayEndTime, p3)
                else if endTime_before_position fo
                then (Threw EndTimeBeforePosition, p3)
                else updatePlayer ack
                       \<lparr>u_guildId = guildId p3,
                        u_noReplace = Val (case po_noReplace options2 of Val b \<Rightarrow> b | _ \<Rightarrow> False),
                        playerOptions = fo\<rparr> p3)"

subsection \<open>Pause, resume, seek, repeat mode, skip\<close>

definition pause :: "bool \<Rightarrow> player \<Rightarrow> unit result \<times> player" where
  "pause ack p =
     (if paused p \<and> \<not> playing p
      then (Threw AlreadyPaused, p)
      else updatePlayer ack
             \<lparr>u_guildId = guildId p, u_noReplace = Absent,
              playerOptions = no_options\<lparr>u_paused := Val True\<rparr>\<rparr>
             (p\<lparr>paused := True\<rparr>))"

definition resume :: "bool \<Rightarrow> player \<Rightarrow> unit result \<times> player" where
  "resume ack p =
     (if \<not> paused p
      then (Threw NotPaused, p)
      else updatePlayer ack
             \<lparr>u_guildId = guildId p, u_noReplace = Absent,
              playerOptions = no_options\<lparr>u_paused := Val False\<rparr>\<rparr>
             (p\<lparr>paused := False\<rparr>))"

text \<open>
  \<open>seek(position)\<close>. Without a current track it returns \<open>undefined\<close> and does
  nothing. The clamp of line 242 only runs for a position outside the track.
\<close>

definition seek :: "jsnum \<Rightarrow> bool \<Rightarrow> player \<Rightarrow> unit result \<times> player" where
  "seek pos ack p =
     (case currentTrack (queue p) of
        None \<Rightarrow> (Returned (), p)
      | Some t \<Rightarrow>
          if isNaN pos then (Threw InvalidPosition, p)
          else if \<not> isSeekable (info t) \<or> isStream (info t)
          then (Threw NotSeekable, p)
          else
            let pos1 = (if js_lt pos (Fin 0) \<or> js_lt (duration (info t)) pos
                        then Math_max (Math_min pos (duration (info t))) (Fin 0)
                        else pos);
                p1 = p\<lparr>position := pos1\<rparr>;
                p2 = set_data ''internal_lastposition'' (JNum (position p1)) p1
            in updatePlayer ack
                 \<lparr>u_guildId = guildId p2, u_noReplace = Absent,
                  playerOptions = no_options\<lparr>u_position := Val pos1\<rparr>\<rparr> p2)"

text \<open>\<open>setRepeatMode(repeatMode)\<close>, on the string the caller passes.\<close>

definition setRepeatMode :: "string \<Rightarrow> player \<Rightarrow> unit result \<times> player" where
  "setRepeatMode m p =
     (if m = ''off'' then (Returned (), p\<lparr>repeatMode := RepeatOff\<rparr>)
      else if m = ''track'' then (Returned (), p\<lparr>repeatMode := RepeatTrack\<rparr>)
      else if m = ''queue'' then (Returned (), p\<lparr>repeatMode := RepeatQueue\<rparr>)
      else (Threw InvalidRepeatMode, p))"

text \<open>
  \<open>skip(skipTo = 0)\<close>. \<open>skipTo\<close> counts tracks, so it is an integer here.
\<close>

definition skip :: "int \<Rightarrow> bool \<Rightarrow> player \<Rightarrow> bool result \<times> player" where
  "skip skipTo ack p =
     (if size_q (queue p) = 0
      then (Threw SkipOutOfRange, p)
      else if 1 < skipTo \<and> int (size_q (queue p)) < skipTo
      then (Threw SkipOutOfRange, p)
      else
        let p1 = (if 1 < skipTo then p\<lparr>queue := splice 0 (skipTo - 1) (queue p)\<rparr> else p)
        in case updatePlayer ack
                  \<lparr>u_guildId = guildId p1, u_noReplace = Absent,
                   playerOptions = no_options\<lparr>u_encodedTrack := Val None\<rparr>\<rparr> p1 of
             (Returned _, p2) \<Rightarrow> (Returned True, p2)
           | (Threw e, p2) \<Rightarrow> (Threw e, p2))"

section \<open>Search results\<close>

text \<open>
  \<open>search\<close> asks the node for \<open>/loadtracks\<close> and turns the answer into a
  \<open>SearchResult\<close>. The request is the node's; the model starts from the answer
  \<open>res\<close>, an object with a load type, \<open>data\<close> and \<open>pluginInfo\<close>. Modelled
  from the spec: the type \<open>LoadTypes\<close> (\<open>./Utils\<close>) is not among the sources; it
  is the closed set track, playlist, search, empty, error.
\<close>

datatype loadType = LoadTrack | LoadPlaylist | LoadSearch | LoadEmpty | LoadError

record rawResponse =
  r_loadType :: loadType
  r_data :: jsvalue
  r_pluginInfo :: jsvalue

text \<open>The error of reading a property of \<open>undefined\<close> or \<open>null\<close>.\<close>

definition cannot_read :: "string \<Rightarrow> string \<Rightarrow> error" where
  "cannot_read what k =
     TypeError (''Cannot read properties of '' @ what @ '' (reading '' @ [CHR 0x27] @ k @ [CHR 0x27] @ '')'')"

text \<open>
  \<open>v.k\<close> for the keys the source reads. It throws on \<open>undefined\<close> and \<open>null\<close>.
  An object answers with its own property, an array and a string know their
  \<open>length\<close>; properties inherited from a prototype are not modelled.
\<close>

fun get_prop :: "jsvalue \<Rightarrow> string \<Rightarrow> error + jsvalue" where
  "get_prop JUndefined k = Inl (cannot_read ''undefined'' k)"
| "get_prop JNull k = Inl (cannot_read ''null'' k)"
| "get_prop (JObj kvs) k = Inr (case map_of kvs k of None \<Rightarrow> JUndefined | Some v \<Rightarrow> v)"
| "get_prop (JArr xs) k = Inr (if k = ''length'' then JNum (Fin (real (length xs))) else JUndefined)"
| "get_prop (JStr s) k = Inr (if k = ''length'' then JNum (Fin (real (length s))) else JUndefined)"
| "get_prop (JBool b) k = Inr JUndefined"
| "get_prop (JNum a) k = Inr JUndefined"

text \<open>\<open>v?.k\<close>: \<open>undefined\<close> where \<open>v.k\<close> would throw.\<close>

definition opt_prop :: "jsvalue \<Rightarrow> string \<Rightarrow> jsvalue" where
  "opt_prop v k = (case get_prop v k of Inl e \<Rightarrow> JUndefined | Inr x \<Rightarrow> x)"

text \<open>
  \<open>v[n]\<close> for a number \<open>n\<close>. An array or a string answers at an index inside it; an
  object looks up the key that the number converts to (\<open>toStr\<close>, the number's
  \<open>toString\<close>, is a parameter).
\<close>

definition is_index :: "jsnum \<Rightarrow> nat \<Rightarrow> bool" where
  "is_index n len = (case n of Fin r \<Rightarrow> of_int \<lfloor>r\<rfloor> = r \<and> 0 \<le> r \<and> r < real len | _ \<Rightarrow> False)"

definition index_of :: "jsnum \<Rightarrow> nat" where
  "index_of n = (case n of Fin r \<Rightarrow> nat \<lfloor>r\<rfloor> | _ \<Rightarrow> 0)"

fun get_index :: "(jsnum \<Rightarrow> string) \<Rightarrow> jsvalue \<Rightarrow> jsnum \<Rightarrow> error + jsvalue" where
  "get_index toStr JUndefined n = Inl (cannot_read ''undefined'' (toStr n))"
| "get_index toStr JNull n = Inl (cannot_read ''null'' (toStr n))"
| "get_index toStr (JArr xs) n =
     Inr (if is_index n (length xs) then xs ! index_of n else JUndefined)"
| "get_index toStr (JStr s) n =
     Inr (if is_index n (length s) then JStr [s ! index_of n] else JUndefined)"
| "get_index toStr (JObj kvs) n =
     Inr (case map_of kvs (toStr n) of None \<Rightarrow> JUndefined | Some v \<Rightarrow> v)"
| "get_index toStr (JBool b) n = Inr JUndefined"
| "get_index toStr (JNum a) n = Inr JUndefined"

text \<open>\<open>a || b\<close> for operands that cannot throw.\<close>

definition js_or :: "jsvalue \<Rightarrow> jsvalue \<Rightarrow> jsvalue" where
  "js_or a b = (if truthy a then a else b)"

text \<open>
  \<open>a + b\<close>: the sum of two numbers. With any other operand JavaScript converts and
  concatenates; that result is the parameter \<open>coerced\<close>. It never throws on these
  values.
\<close>

definition js_plus :: "(jsvalue \<Rightarrow> jsvalue \<Rightarrow> jsvalue) \<Rightarrow> jsvalue \<Rightarrow> jsvalue \<Rightarrow> jsvalue" where
  "js_plus coerced a b =
     (case (a, b) of (JNum x, JNum y) \<Rightarrow> JNum (js_add x y) | _ \<Rightarrow> coerced a b)"

text \<open>Sequencing of steps that may throw.\<close>

definition bindE :: "error + 'a \<Rightarrow> ('a \<Rightarrow> error + 'b) \<Rightarrow> error + 'b" where
  "bindE m f = (case m of Inl e \<Rightarrow> Inl e | Inr x \<Rightarrow> f x)"

text \<open>
  What the normalization takes from outside: \<open>utilManager.buildTrack\<close> (with the
  requesting user fixed), which is not among the sources, and the two conversions
  above.
\<close>

record 'trk environment =
  buildTrack :: "jsvalue \<Rightarrow> 'trk"
  toStr :: "jsnum \<Rightarrow> string"
  coerced :: "jsvalue \<Rightarrow> jsvalue \<Rightarrow> jsvalue"

record 'trk playlistInfo =
  pl_name :: jsvalue
  pl_author :: jsvalue
  pl_thumbnail :: jsvalue
  pl_uri :: jsvalue
  pl_selectedTrack :: "'trk option"
  pl_duration :: jsvalue

record 'trk searchResult =
  s_loadType :: loadType
  s_exception :: jsvalue
  s_pluginInfo :: jsvalue
  s_playlist :: "'trk playlistInfo option"
  s_tracks :: "'trk list"

text \<open>Line 202: the raw tracks.\<close>

definition resTracks :: "rawResponse \<Rightarrow> jsvalue" where
  "resTracks res =
     (case r_loadType res of
        LoadPlaylist \<Rightarrow> opt_prop (r_data res) ''tracks''
      | LoadTrack \<Rightarrow> JArr [r_data res]
      | LoadSearch \<Rightarrow> (case r_data res of JArr xs \<Rightarrow> JArr xs | d \<Rightarrow> JArr [d])
      | _ \<Rightarrow> JArr [])"

text \<open>
  The raw track that \<open>res.data?.info?.selectedTrack\<close> selects: none when the
  selection is not a number or is \<open>-1\<close>, none when \<open>resTracks[selectedTrack]\<close> is
  falsy. Reading \<open>resTracks[selectedTrack]\<close> throws when \<open>resTracks\<close> is
  \<open>undefined\<close> or \<open>null\<close>.
\<close>

definition selected_raw :: "'trk environment \<Rightarrow> jsvalue \<Rightarrow> jsvalue \<Rightarrow> error + jsvalue option" where
  "selected_raw env d rt =
     (case opt_prop (opt_prop d ''info'') ''selectedTrack'' of
        JNum n \<Rightarrow>
          if n = Fin (- 1) then Inr None
          else bindE (get_index (toStr env) rt n) (\<lambda>t. Inr (if truthy t then Some t else None))
      | _ \<Rightarrow> Inr None)"

text \<open>
  Lines 209 to 214, the playlist object of a playlist answer. \<open>res.data.info\<close> and
  \<open>res.data.pluginInfo\<close> throw when \<open>res.data\<close> is \<open>undefined\<close> or \<open>null\<close>; both
  are read once here. The third operand of the thumbnail is only evaluated when the
  first two are falsy. \<open>resTracks.length\<close> throws when \<open>resTracks\<close> is
  \<open>undefined\<close> or \<open>null\<close>, and \<open>resTracks.reduce\<close> is only a function on an array.
\<close>

definition playlist_thumbnail :: "'trk environment \<Rightarrow> jsvalue \<Rightarrow> jsvalue \<Rightarrow> jsvalue \<Rightarrow> jsvalue \<Rightarrow> error + jsvalue" where
  "playlist_thumbnail env d rt i pl =
     (if truthy (opt_prop i ''artworkUrl'') then Inr (opt_prop i ''artworkUrl'')
      else if truthy (opt_prop pl ''artworkUrl'') then Inr (opt_prop pl ''artworkUrl'')
      else bindE (selected_raw env d rt) (\<lambda>sel.
        Inr (js_or (case sel of
                      None \<Rightarrow> JNull
                    | Some t \<Rightarrow> js_or (opt_prop (opt_prop t ''info'') ''artworkUrl'')
                                 (opt_prop (opt_prop (opt_prop t ''info'') ''pluginInfo'') ''artworkUrl''))
                   JNull)))"

definition playlist_duration :: "'trk environment \<Rightarrow> jsvalue \<Rightarrow> error + jsvalue" where
  "playlist_duration env rt =
     bindE (get_prop rt ''length'') (\<lambda>len.
       if truthy len then
         (case rt of
            JArr xs \<Rightarrow>
              Inr (fold (\<lambda>cur acc. js_plus (coerced env) acc
                                     (js_or (opt_prop (opt_prop cur ''info'') ''duration'') (JNum (Fin 0))))
                        xs (JNum (Fin 0)))
          | _ \<Rightarrow> Inl (TypeError ''resTracks.reduce is not a function''))
       else Inr (JNum (Fin 0)))"

definition build_playlist :: "'trk environment \<Rightarrow> jsvalue \<Rightarrow> jsvalue \<Rightarrow> error + 'trk playlistInfo" where
  "build_playlist env d rt =
     bindE (get_prop d ''info'') (\<lambda>i.
     bindE (get_prop d ''pluginInfo'') (\<lambda>pl.
     bindE (playlist_thumbnail env d rt i pl) (\<lambda>thumbnail.
     bindE (selected_raw env d rt) (\<lambda>sel.
     bindE (playlist_duration env rt) (\<lambda>dur.
       Inr \<lparr>pl_name = js_or (opt_prop i ''name'') (js_or (opt_prop pl ''name'') JNull),
            pl_author = js_or (opt_prop i ''author'') (js_or (opt_prop pl ''author'') JNull),
            pl_thumbnail = thumbnail,
            pl_uri = js_or (opt_prop i ''url'') (js_or (opt_prop i ''uri'')
                       (js_or (opt_prop i ''link'') (js_or (opt_prop pl ''url'')
                         (js_or (opt_prop pl ''uri'') (js_or (opt_prop pl ''link'') JNull))))),
            pl_selectedTrack = map_option (buildTrack env) sel,
            pl_duration = dur\<rparr>)))))"

text \<open>Line 216: \<open>resTracks.length ? resTracks.map(t => buildTrack(t, requestUser)) : []\<close>.\<close>

definition build_tracks :: "'trk environment \<Rightarrow> jsvalue \<Rightarrow> error + 'trk list" where
  "build_tracks env rt =
     bindE (get_prop rt ''length'') (\<lambda>len.
       if truthy len then
         (case rt of
            JArr xs \<Rightarrow> Inr (map (buildTrack env) xs)
          | _ \<Rightarrow> Inl (TypeError ''resTracks.map is not a function''))
       else Inr [])"

text \<open>Lines 202 to 218 of \<open>search\<close>: the result for the answer \<open>res\<close>.\<close>

definition search :: "'trk environment \<Rightarrow> rawResponse \<Rightarrow> error + 'trk searchResult" where
  "search env res =
     (let rt = resTracks res
      in bindE (if r_loadType res = LoadPlaylist
                then bindE (build_playlist env (r_data res) rt) (\<lambda>pl. Inr (Some pl))
                else Inr None) (\<lambda>playlist.
         bindE (build_tracks env rt) (\<lambda>ts.
           Inr \<lparr>s_loadType = r_loadType res,
                s_exception = (if r_loadType res = LoadError then r_data res else JNull),
                s_pluginInfo = js_or (r_pluginInfo res) (JObj []),
                s_playlist = playlist,
                s_tracks = ts\<rparr>)))"

section \<open>Sequences of operations\<close>

text \<open>
  The operations of the state machine and of the data bag, as a caller issues them
  one after the other, and the player that an operation leaves behind, whether it
  returned or threw. \<open>connect\<close>, \<open>disconnect\<close> and \<open>destroy\<close> talk to the gateway
  and to the manager and are not part of this model.
\<close>

datatype operation =
    OpPlay playOptions
  | OpSetVolume jsnum bool
  | OpPause
  | OpResume
  | OpSeek jsnum
  | OpSetRepeatMode string
  | OpSkip int
  | OpSet string jsvalue
  | OpClearData

fun run :: "operation \<Rightarrow> bool \<Rightarrow> player \<Rightarrow> player" where
  "run (OpPlay options) ack p = snd (play options ack p)"
| "run (OpSetVolume v ignoreVolumeDecrementer) ack p = snd (setVolume v ignoreVolumeDecrementer ack p)"
| "run OpPause ack p = snd (pause ack p)"
| "run OpResume ack p = snd (resume ack p)"
| "run (OpSeek pos) ack p = snd (seek pos ack p)"
| "run (OpSetRepeatMode m) ack p = snd (setRepeatMode m p)"
| "run (OpSkip skipTo) ack p = snd (skip skipTo ack p)"
| "run (OpSet key v) ack p = set_data key v p"
| "run OpClearData ack p = clearData p"

text \<open>
  The relation between the two volume fields under a configured decrementer:
  \<open>lavalinkVolume = Math.floor(volume * volumeDecrementer * 100) / 100\<close>.
\<close>

definition decremented :: "player \<Rightarrow> jsnum" where
  "decremented p = floor2 (js_mul (volume p) (decrementer (LavalinkManager p)))"

definition volume_derived :: "player \<Rightarrow> bool" where
  "volume_derived p =
     (if has_decrementer (LavalinkManager p) then lavalinkVolume p = decremented p else True)"

text \<open>
  A sequence of operations, each with the node's answer to its payload, and whether
  an operation is a \<open>setVolume\<close> that ignores the decrementer.
\<close>

fun run_all :: "(operation \<times> bool) list \<Rightarrow> player \<Rightarrow> player" where
  "run_all [] p = p"
| "run_all (x # xs) p = run_all xs (run (fst x) (snd x) p)"

definition ignores_decrementer :: "operation \<Rightarrow> bool" where
  "ignores_decrementer op = (case op of OpSetVolume v ign \<Rightarrow> ign | _ \<Rightarrow> False)"

section \<open>Example inputs\<close>

definition node_eu :: lavalinkNode where
  "node_eu = \<lparr>nodeId = ''eu-1'', regions = Some [''eu'', ''de'']\<rparr>"

definition node_us :: lavalinkNode where
  "node_us = \<lparr>nodeId = ''us-1'', regions = Some [''us'']\<rparr>"

definition node_plain :: lavalinkNode where
  "node_plain = \<lparr>nodeId = ''plain'', regions = None\<rparr>"

definition plain_manager :: lavalinkManager where
  "plain_manager = \<lparr>leastUsedNodes = [node_plain, node_us, node_eu],
     volumeDecrementer = None, applyVolumeAsFilter = False\<rparr>"

definition half_manager :: lavalinkManager where
  "half_manager = \<lparr>leastUsedNodes = [node_plain, node_us, node_eu],
     volumeDecrementer = Some (Fin 0.5), applyVolumeAsFilter = False\<rparr>"


definition create_options :: playerCreateOptions where
  "create_options = \<lparr>o_guildId = ''guild'', o_voiceChannelId = ''voice'',
     o_textChannelId = None, o_volume = Some (Fin 80), o_vcRegion = None\<rparr>"

definition song :: track where
  "song = \<lparr>encodedTrack = Val ''QAAAsong'',
            info = \<lparr>duration = Fin 180000, isSeekable = True, isStream = False\<rparr>\<rparr>"

definition second_song :: track where
  "second_song = \<lparr>encodedTrack = Val ''QAAAsecond'',
                   info = \<lparr>duration = Fin 240000, isSeekable = True, isStream = False\<rparr>\<rparr>"

definition third_song :: track where
  "third_song = \<lparr>encodedTrack = Val ''QAAAthird'',
                  info = \<lparr>duration = Fin 60000, isSeekable = True, isStream = False\<rparr>\<rparr>"

text \<open>A player on \<open>song\<close> with two more tracks pending.\<close>

definition idle_player :: player where
  "idle_player = \<lparr>guildId = ''guild'', voiceChannelId = Some ''voice'', textChannelId = None,
     playing = False, paused = False, repeatMode = RepeatOff,
     volume = Fin 100, lavalinkVolume = Fin 100, position = Fin 1500,
     data = [(''internal_lastposition'', JNum (Fin 1500)), (''note'', JStr ''mine'')],
     LavalinkManager = plain_manager, node = node_plain,
     queue = \<lparr>tracks = [second_song, third_song], currentTrack = Some song\<rparr>,
     sent = []\<rparr>"

text \<open>The player that \<open>constructor create_options half_manager\<close> returns.\<close>

definition half_player :: player where
  "half_player = \<lparr>guildId = ''guild'', voiceChannelId = Some ''voice'', textChannelId = None,
     playing = False, paused = False, repeatMode = RepeatOff,
     volume = Fin 80, lavalinkVolume = Fin 40, position = Fin 0,
     data = [], LavalinkManager = half_manager, node = node_plain,
     queue = new_queue,
     sent = [\<lparr>u_guildId = ''guild'', u_noReplace = Absent,
              playerOptions = no_options\<lparr>u_volume := Val (Fin 40)\<rparr>\<rparr>]\<rparr>"

text \<open>A playlist answer whose \<open>data\<close> has playlist information and no \<open>tracks\<close>.\<close>

definition playlist_without_tracks :: rawResponse where
  "playlist_without_tracks = \<lparr>r_loadType = LoadPlaylist,
     r_data = JObj [(''info'', JObj [(''name'', JStr ''Mix''), (''selectedTrack'', JNum (Fin (- 1)))])],
     r_pluginInfo = JObj []\<rparr>"

section \<open>Verification\<close>

subsection \<open>The data bag\<close>

lemma fold_delete_filter:
  "fold (\<lambda>key d. if key \<in> K then d else AList.delete key d) ks al =
     filter (\<lambda>kv. fst kv \<in> K \<or> fst kv \<notin> set ks) al"
proof (induction ks arbitrary: al)
  case Nil
  show ?case by simp
next
  case (Cons k ks)
  show ?case
  proof (cases "k \<in> K")
    case True
    have "filter (\<lambda>kv. fst kv \<in> K \<or> fst kv \<notin> set ks) al =
          filter (\<lambda>kv. fst kv \<in> K \<or> fst kv \<notin> set (k # ks)) al"
      using True by (intro filter_cong) auto
    with True Cons.IH [of al] show ?thesis by simp
  next
    case False
    have "filter (\<lambda>kv. fst kv \<in> K \<or> fst kv \<notin> set ks) (AList.delete k al) =
          filter (\<lambda>kv. fst kv \<in> K \<or> fst kv \<notin> set (k # ks)) al"
      unfolding AList.delete_eq filter_filter
      by (intro filter_cong) (auto simp: False)
    with False Cons.IH [of "AList.delete k al"] show ?thesis by simp
  qed
qed

lemma clearData_filter:
  "clearData p = p\<lparr>data := filter (\<lambda>kv. startsWith (fst kv) ''internal_'') (data p)\<rparr>"
proof -
  have "filter (\<lambda>kv. fst kv \<in> set (filter (\<lambda>v. startsWith v ''internal_'') (map fst (data p)))
                  \<or> fst kv \<notin> set (map fst (data p))) (data p) =
        filter (\<lambda>kv. startsWith (fst kv) ''internal_'') (data p)"
    by (intro filter_cong) auto
  then show ?thesis
    by (simp add: clearData_def Let_def fold_delete_filter)
qed



subsection \<open>Node selection\<close>

lemma selectNode_find:
  "selectNode pool vcRegion =
     (case pool of [] \<Rightarrow> None
      | n # ns \<Rightarrow> Some (case vcRegion of None \<Rightarrow> n
                        | Some r \<Rightarrow> if r = [] then n
                                    else (case find (advertises r) pool of Some m \<Rightarrow> m | None \<Rightarrow> n)))"
proof (cases pool)
  case Nil
  then show ?thesis by (simp add: selectNode_def)
next
  case (Cons n ns)
  have hd_filter: "(case filter P pool of m # _ \<Rightarrow> Some m | [] \<Rightarrow> None) = find P pool" for P :: "lavalinkNode \<Rightarrow> bool"
    by (induction pool) auto
  show ?thesis
  proof (cases vcRegion)
    case None
    with Cons show ?thesis by (simp add: selectNode_def)
  next
    case (Some r)
    show ?thesis
    proof (cases "r = []")
      case True
      with Cons Some show ?thesis by (simp add: selectNode_def)
    next
      case False
      have "filter (advertises r) pool = [] \<longleftrightarrow> find (advertises r) pool = None"
        by (induction pool) auto
      moreover have "filter (advertises r) pool = m # ms \<Longrightarrow> find (advertises r) pool = Some m" for m ms
        using hd_filter [of "advertises r"] by simp
      ultimately show ?thesis
        using Cons Some False
        by (cases "filter (advertises r) pool") (auto simp: selectNode_def)
    qed
  qed
qed

lemma constructor_node:
  "selectNode (leastUsedNodes mgr) (o_vcRegion options) = Some n \<Longrightarrow>
     \<exists>p. constructor options mgr ack = Inr p \<and> node p = n \<and> LavalinkManager p = mgr"
  by (auto simp: constructor_def Let_def setVolume_def updatePlayer_def split: option.splits)

text \<open>
  C8. The constructor takes the first node of the pool, which is in ascending order
  of load, that advertises the region hint when a (non-empty) hint is given; when no
  node advertises it, or without a hint, it takes the first node of the pool; on an
  empty pool it throws and there is no player.
\<close>

theorem constructor_selects_node:
  "(leastUsedNodes mgr = [] \<longrightarrow> constructor options mgr ack = Inl NoNodeAvailable) \<and>
   (\<forall>r m. o_vcRegion options = Some r \<and> r \<noteq> [] \<and> find (advertises r) (leastUsedNodes mgr) = Some m \<longrightarrow>
      (\<exists>p. constructor options mgr ack = Inr p \<and> node p = m)) \<and>
   (\<forall>r n ns. o_vcRegion options = Some r \<and> find (advertises r) (leastUsedNodes mgr) = None \<and>
        leastUsedNodes mgr = n # ns \<longrightarrow>
      (\<exists>p. constructor options mgr ack = Inr p \<and> node p = n)) \<and>
   (\<forall>n ns. o_vcRegion options = None \<and> leastUsedNodes mgr = n # ns \<longrightarrow>
      (\<exists>p. constructor options mgr ack = Inr p \<and> node p = n))"
proof (intro conjI allI impI)
  assume "leastUsedNodes mgr = []"
  then show "constructor options mgr ack = Inl NoNodeAvailable"
    by (simp add: constructor_def selectNode_def NoNodeAvailable_def)
next
  fix r m
  assume h: "o_vcRegion options = Some r \<and> r \<noteq> [] \<and> find (advertises r) (leastUsedNodes mgr) = Some m"
  then have "leastUsedNodes mgr \<noteq> []" by auto
  with h have "selectNode (leastUsedNodes mgr) (o_vcRegion options) = Some m"
    by (cases "leastUsedNodes mgr") (simp_all add: selectNode_find)
  from constructor_node [OF this] show "\<exists>p. constructor options mgr ack = Inr p \<and> node p = m"
    by blast
next
  fix r n ns
  assume h: "o_vcRegion options = Some r \<and> find (advertises r) (leastUsedNodes mgr) = None \<and>
        leastUsedNodes mgr = n # ns"
  then have "selectNode (leastUsedNodes mgr) (o_vcRegion options) = Some n"
    by (auto simp: selectNode_find)
  from constructor_node [OF this] show "\<exists>p. constructor options mgr ack = Inr p \<and> node p = n"
    by blast
next
  fix n ns
  assume h: "o_vcRegion options = None \<and> leastUsedNodes mgr = n # ns"
  then have "selectNode (leastUsedNodes mgr) (o_vcRegion options) = Some n"
    by (simp add: selectNode_find)
  from constructor_node [OF this] show "\<exists>p. constructor options mgr ack = Inr p \<and> node p = n"
    by blast
qed

theorem constructor_selects_node_witness:
  "(\<exists>p. constructor (create_options\<lparr>o_vcRegion := Some ''de''\<rparr>) plain_manager True = Inr p \<and> node p = node_eu) \<and>
   (\<exists>p. constructor (create_options\<lparr>o_vcRegion := Some ''asia''\<rparr>) plain_manager True = Inr p \<and> node p = node_plain) \<and>
   (\<exists>p. constructor create_options plain_manager True = Inr p \<and> node p = node_plain) \<and>
   constructor create_options (plain_manager\<lparr>leastUsedNodes := []\<rparr>) True = Inl NoNodeAvailable"
  using constructor_selects_node [of plain_manager "create_options\<lparr>o_vcRegion := Some ''de''\<rparr>" True]
        constructor_selects_node [of plain_manager "create_options\<lparr>o_vcRegion := Some ''asia''\<rparr>" True]
        constructor_selects_node [of plain_manager create_options True]
        constructor_selects_node [of "plain_manager\<lparr>leastUsedNodes := []\<rparr>" create_options True]
  by (simp add: plain_manager_def create_options_def node_eu_def node_us_def node_plain_def advertises_def)

subsection \<open>Pause and resume\<close>

text \<open>
  C3, as stated, fails on a player that is playing: the guard of \<open>pause\<close> is
  \<open>this.paused && !this.playing\<close>, so both calls go through.
\<close>

theorem pause_twice_counterexample:
  "fst (pause True (idle_player\<lparr>playing := True\<rparr>)) = Returned () \<and>
   fst (pause True (snd (pause True (idle_player\<lparr>playing := True\<rparr>)))) = Returned ()"
  by (simp add: pause_def updatePlayer_def idle_player_def)

text \<open>
  C3, amended. On a player that is not playing, the second of two \<open>pause()\<close> calls
  throws the already-paused error, whether the first returned or threw. On a player
  that is playing the second call is not refused: it returns when the node
  acknowledges. \<open>resume()\<close> on a player that is not paused throws the not-paused
  error and changes nothing.
\<close>

theorem pause_twice_needs_not_playing:
  "(\<not> playing p \<longrightarrow> fst (pause ack2 (snd (pause ack1 p))) = Threw AlreadyPaused) \<and>
   (playing p \<longrightarrow> fst (pause ack2 (snd (pause ack1 p))) = (if ack2 then Returned () else Threw TransportError)) \<and>
   (\<not> paused p \<longrightarrow> resume ack p = (Threw NotPaused, p))"
  by (simp add: pause_def resume_def updatePlayer_def)

theorem pause_twice_needs_not_playing_witness:
  "fst (pause True (snd (pause True idle_player))) = Threw AlreadyPaused \<and>
   fst (pause True (snd (pause True (idle_player\<lparr>playing := True\<rparr>)))) = Returned () \<and>
   resume True idle_player = (Threw NotPaused, idle_player)"
  using pause_twice_needs_not_playing [of idle_player True True True]
        pause_twice_needs_not_playing [of "idle_player\<lparr>playing := True\<rparr>" True True True]
  by (simp add: idle_player_def)

subsection \<open>Seek\<close>

lemma js_not_lt: "a \<noteq> NaN \<Longrightarrow> b \<noteq> NaN \<Longrightarrow> (\<not> js_lt a b) = js_le b a"
  by (cases a; cases b) auto

lemma seek_position:
  "pos \<noteq> NaN \<Longrightarrow> d \<noteq> NaN \<Longrightarrow>
   (if js_lt pos (Fin 0) \<or> js_lt d pos then Math_max (Math_min pos d) (Fin 0) else pos) =
     Math_max (Math_min pos d) (Fin 0)"
  by (cases pos; cases d) (auto simp: Math_max_def Math_min_def)

text \<open>
  C6. With a current track that is seekable, not a stream and has a duration \<open>d\<close>
  that is a number, \<open>seek(p)\<close> for any number \<open>p\<close> (the infinities included) is
  not refused: the position becomes \<open>Math.max(Math.min(p, d), 0)\<close>, the same value
  is stored under \<open>internal_lastposition\<close>, and one payload with that position is
  handed to the node; the call returns when the node acknowledges.
\<close>

theorem seek_clamps:
  assumes "currentTrack (queue p) = Some t" and "isSeekable (info t)" and "\<not> isStream (info t)"
    and "duration (info t) \<noteq> NaN" and "pos \<noteq> NaN"
  shows "fst (seek pos ack p) = (if ack then Returned () else Threw TransportError) \<and>
         position (snd (seek pos ack p)) = Math_max (Math_min pos (duration (info t))) (Fin 0) \<and>
         map_of (data (snd (seek pos ack p))) ''internal_lastposition'' =
           Some (JNum (Math_max (Math_min pos (duration (info t))) (Fin 0))) \<and>
         sent (snd (seek pos ack p)) =
           sent p @ [\<lparr>u_guildId = guildId p, u_noReplace = Absent,
                      playerOptions = no_options
                        \<lparr>u_position := Val (Math_max (Math_min pos (duration (info t))) (Fin 0))\<rparr>\<rparr>]"
  using assms
  by (simp add: seek_def Let_def updatePlayer_def set_data_def isNaN_def update_conv'
        seek_position split del: if_split)

theorem seek_clamps_witness:
  "position (snd (seek (Fin (- 50)) True idle_player)) = Fin 0 \<and>
   position (snd (seek (Fin 200000) True idle_player)) = Fin 180000 \<and>
   position (snd (seek (Fin 1234) True idle_player)) = Fin 1234 \<and>
   position (snd (seek PosInf True idle_player)) = Fin 180000 \<and>
   fst (seek (Fin 200000) True idle_player) = Returned () \<and>
   map_of (data (snd (seek (Fin 200000) True idle_player))) ''internal_lastposition'' = Some (JNum (Fin 180000)) \<and>
   map (u_position \<circ> playerOptions) (sent (snd (seek (Fin 200000) True idle_player))) = [Val (Fin 180000)]"
  using seek_clamps [of idle_player song "Fin (- 50)" True]
        seek_clamps [of idle_player song "Fin 200000" True]
        seek_clamps [of idle_player song "Fin 1234" True]
        seek_clamps [of idle_player song PosInf True]
  by (simp add: idle_player_def song_def Math_max_def Math_min_def)

subsection \<open>Skip\<close>

text \<open>
  C7. \<open>skip(skipTo)\<close> throws, and changes nothing, when no track is pending or when
  \<open>skipTo\<close> is beyond the number of pending tracks. Otherwise the pending sequence
  is unchanged for \<open>skipTo\<close> up to 1 and loses its first \<open>skipTo - 1\<close> tracks for
  a larger \<open>skipTo\<close>; the current track stays, one payload with
  \<open>encodedTrack: null\<close> is handed to the node, and the call returns \<open>true\<close> when
  the node acknowledges.
\<close>

theorem skip_behaviour:
  "(size_q (queue p) = 0 \<or> int (size_q (queue p)) < skipTo \<longrightarrow>
      skip skipTo ack p = (Threw SkipOutOfRange, p)) \<and>
   (size_q (queue p) \<noteq> 0 \<and> skipTo \<le> int (size_q (queue p)) \<longrightarrow>
      fst (skip skipTo ack p) = (if ack then Returned True else Threw TransportError) \<and>
      tracks (queue (snd (skip skipTo ack p))) =
        (if 1 < skipTo then drop (nat (skipTo - 1)) (tracks (queue p)) else tracks (queue p)) \<and>
      int (length (tracks (queue (snd (skip skipTo ack p))))) =
        (if 1 < skipTo then int (length (tracks (queue p))) - (skipTo - 1)
         else int (length (tracks (queue p)))) \<and>
      currentTrack (queue (snd (skip skipTo ack p))) = currentTrack (queue p) \<and>
      sent (snd (skip skipTo ack p)) =
        sent p @ [\<lparr>u_guildId = guildId p, u_noReplace = Absent,
                   playerOptions = no_options\<lparr>u_encodedTrack := Val None\<rparr>\<rparr>])"
proof -
  have "tracks (queue p) \<noteq> [] \<Longrightarrow> 1 \<le> int (length (tracks (queue p)))"
    by (cases "tracks (queue p)") simp_all
  then show ?thesis
    by (auto simp: skip_def Let_def updatePlayer_def size_q_def splice_def)
qed

theorem skip_behaviour_witness:
  "skip 3 True idle_player = (Threw SkipOutOfRange, idle_player) \<and>
   skip 0 True (idle_player\<lparr>queue := new_queue\<rparr>) = (Threw SkipOutOfRange, idle_player\<lparr>queue := new_queue\<rparr>) \<and>
   tracks (queue (snd (skip 0 True idle_player))) = [second_song, third_song] \<and>
   tracks (queue (snd (skip 1 True idle_player))) = [second_song, third_song] \<and>
   tracks (queue (snd (skip 2 True idle_player))) = [third_song] \<and>
   fst (skip 2 True idle_player) = Returned True \<and>
   map (u_encodedTrack \<circ> playerOptions) (sent (snd (skip 2 True idle_player))) = [Val None]"
  using skip_behaviour [of idle_player 3 True]
        skip_behaviour [of "idle_player\<lparr>queue := new_queue\<rparr>" 0 True]
        skip_behaviour [of idle_player 0 True]
        skip_behaviour [of idle_player 1 True]
        skip_behaviour [of idle_player 2 True]
  by (simp add: idle_player_def new_queue_def size_q_def)

subsection \<open>The two volume fields\<close>

lemma select_current_frame:
  "volume (select_current options p) = volume p"
  "lavalinkVolume (select_current options p) = lavalinkVolume p"
  "LavalinkManager (select_current options p) = LavalinkManager p"
  "position (select_current options p) = position p"
  "data (select_current options p) = data p"
  "sent (select_current options p) = sent p"
  "guildId (select_current options p) = guildId p"
  by (simp_all add: select_current_def Let_def split: property.split)

lemma apply_volume_option_frame:
  "LavalinkManager (fst (apply_volume_option options p)) = LavalinkManager p"
  "position (fst (apply_volume_option options p)) = position p"
  "data (fst (apply_volume_option options p)) = data p"
  "sent (fst (apply_volume_option options p)) = sent p"
  "guildId (fst (apply_volume_option options p)) = guildId p"
  "queue (fst (apply_volume_option options p)) = queue p"
  by (simp_all add: apply_volume_option_def Let_def split: property.split)

lemma apply_volume_option_volume:
  "volume (fst (apply_volume_option options p)) =
     (case po_volume options of
        Val v \<Rightarrow> if v = NaN then volume p else clamp_volume v
      | _ \<Rightarrow> volume p)"
  "lavalinkVolume (fst (apply_volume_option options p)) =
     (case po_volume options of
        Val v \<Rightarrow> if v = NaN then lavalinkVolume p
                 else floor2 (scaled_volume (clamp_volume v) False (LavalinkManager p))
      | _ \<Rightarrow> lavalinkVolume p)"
  by (simp_all add: apply_volume_option_def Let_def isNaN_def split: property.split)

lemma play_frame:
  "LavalinkManager (snd (play options ack p)) = LavalinkManager p"
  "volume (snd (play options ack p)) =
     (case currentTrack (queue (select_current options p)) of
        None \<Rightarrow> volume p
      | Some t \<Rightarrow> volume (fst (apply_volume_option options (select_current options p))))"
  "lavalinkVolume (snd (play options ack p)) =
     (case currentTrack (queue (select_current options p)) of
        None \<Rightarrow> lavalinkVolume p
      | Some t \<Rightarrow> lavalinkVolume (fst (apply_volume_option options (select_current options p))))"
  by (simp_all add: play_def Let_def updatePlayer_def set_data_def select_current_frame
        apply_volume_option_frame split: option.split)

lemma setVolume_frame:
  "LavalinkManager (snd (setVolume v ign ack p)) = LavalinkManager p"
  "volume (snd (setVolume v ign ack p)) = (if v = NaN then volume p else clamp_volume v)"
  "lavalinkVolume (snd (setVolume v ign ack p)) =
     (if v = NaN then lavalinkVolume p
      else floor2 (scaled_volume (clamp_volume v) ign (LavalinkManager p)))"
  by (simp_all add: setVolume_def Let_def updatePlayer_def isNaN_def)

lemma other_operations_frame:
  assumes "\<forall>v ign. op \<noteq> OpSetVolume v ign" and "\<forall>options. op \<noteq> OpPlay options"
  shows "LavalinkManager (run op ack p) = LavalinkManager p \<and>
         volume (run op ack p) = volume p \<and>
         lavalinkVolume (run op ack p) = lavalinkVolume p"
  using assms
  by (cases op)
     (auto simp: pause_def resume_def seek_def setRepeatMode_def skip_def Let_def
        updatePlayer_def set_data_def clearData_def split: option.split)

lemma volume_derived_cong:
  "LavalinkManager q = LavalinkManager p \<Longrightarrow> volume q = volume p \<Longrightarrow>
   lavalinkVolume q = lavalinkVolume p \<Longrightarrow> volume_derived q = volume_derived p"
  by (simp add: volume_derived_def decremented_def)

lemma volume_derived_fresh:
  "LavalinkManager q = LavalinkManager p \<Longrightarrow> volume q = clamp_volume v \<Longrightarrow>
   lavalinkVolume q = floor2 (scaled_volume (clamp_volume v) False (LavalinkManager p)) \<Longrightarrow>
   volume_derived q"
  by (simp add: volume_derived_def decremented_def scaled_volume_def)

lemma run_derived:
  assumes "volume_derived p" and "\<not> ignores_decrementer op"
  shows "volume_derived (run op ack p)"
proof -
  have rest: "volume_derived (run op ack p)"
    if "\<forall>u ign. op \<noteq> OpSetVolume u ign" and "\<forall>options. op \<noteq> OpPlay options"
  proof -
    have "volume_derived (run op ack p) = volume_derived p"
      using other_operations_frame [OF that, of ack p] by (intro volume_derived_cong) simp_all
    with assms show ?thesis by simp
  qed
  show ?thesis
  proof (cases op)
    case (OpPlay options')
    show ?thesis
    proof (cases "\<exists>u t. po_volume options' = Val u \<and> u \<noteq> NaN \<and>
                    currentTrack (queue (select_current options' p)) = Some t")
      case True
      then obtain u t where "po_volume options' = Val u" "u \<noteq> NaN"
        "currentTrack (queue (select_current options' p)) = Some t" by blast
      then show ?thesis
        unfolding OpPlay
        by (intro volume_derived_fresh [of _ p u])
           (simp_all add: play_frame apply_volume_option_volume select_current_frame)
    next
      case False
      then have "volume_derived (run op ack p) = volume_derived p"
        unfolding OpPlay
        by (intro volume_derived_cong)
           (auto simp: play_frame apply_volume_option_volume select_current_frame
              split: option.split property.split)
      with assms show ?thesis by simp
    qed
  next
    case (OpSetVolume u ign)
    with assms have ign: "\<not> ign" by (simp add: ignores_decrementer_def)
    show ?thesis
    proof (cases "u = NaN")
      case True
      then have "volume_derived (run op ack p) = volume_derived p"
        unfolding OpSetVolume by (intro volume_derived_cong) (simp_all add: setVolume_frame)
      with assms show ?thesis by simp
    next
      case False
      with ign show ?thesis
        unfolding OpSetVolume
        by (intro volume_derived_fresh [of _ p u]) (simp_all add: setVolume_frame)
    qed
  next
    case OpPause
    then show ?thesis by (intro rest) simp_all
  next
    case OpResume
    then show ?thesis by (intro rest) simp_all
  next
    case (OpSeek x)
    then show ?thesis by (intro rest) simp_all
  next
    case (OpSetRepeatMode m)
    then show ?thesis by (intro rest) simp_all
  next
    case (OpSkip k)
    then show ?thesis by (intro rest) simp_all
  next
    case (OpSet key x)
    then show ?thesis by (intro rest) simp_all
  next
    case OpClearData
    then show ?thesis by (intro rest) simp_all
  qed
qed

lemma run_all_derived:
  "volume_derived p \<Longrightarrow> (\<forall>x \<in> set ops. \<not> ignores_decrementer (fst x)) \<Longrightarrow>
   volume_derived (run_all ops p)"
  by (induction ops arbitrary: p) (simp_all add: run_derived)

text \<open>
  C2, as stated, fails after a \<open>setVolume\<close> that is told to ignore the decrementer.
  The player below is the one the constructor returns for a start volume of 80 under
  a decrementer of 0.5; after \<open>setVolume(100, true)\<close> both volume fields are 100,
  where the claimed relation asks for 50.
\<close>

theorem lavalinkVolume_counterexample:
  "constructor create_options half_manager True = Inr half_player \<and>
   fst (setVolume (Fin 100) True True half_player) = Returned () \<and>
   has_decrementer (LavalinkManager (snd (setVolume (Fin 100) True True half_player))) \<and>
   \<not> applyVolumeAsFilter (LavalinkManager (snd (setVolume (Fin 100) True True half_player))) \<and>
   volume (snd (setVolume (Fin 100) True True half_player)) = Fin 100 \<and>
   lavalinkVolume (snd (setVolume (Fin 100) True True half_player)) = Fin 100 \<and>
   decremented (snd (setVolume (Fin 100) True True half_player)) = Fin 50"
  by (simp add: constructor_def selectNode_def create_options_def half_manager_def half_player_def
      has_decrementer_def decrementer_def truthy_num_def setVolume_def isNaN_def Let_def
      clamp_volume_def scaled_volume_def floor2_def Math_max_def Math_min_def updatePlayer_def
      new_queue_def decremented_def no_options_def)

text \<open>
  C2, amended. Under a configured decrementer the relation
  \<open>lavalinkVolume = Math.floor(volume * volumeDecrementer * 100) / 100\<close>
  (\<open>volume_derived\<close>) is established by every \<open>setVolume(v)\<close> with a number \<open>v\<close>
  that does not ignore the decrementer and by every \<open>play\<close> that finds a track and
  carries a number as volume. Every operation of the model other than a
  \<open>setVolume\<close> that ignores the decrementer preserves it, whether the operation
  returns or throws, and so does every sequence of such operations. None of this
  depends on \<open>applyVolumeAsFilter\<close>. A \<open>setVolume(v, true)\<close> leaves
  \<open>lavalinkVolume = Math.floor(volume * 100) / 100\<close> instead. Operations other
  than \<open>setVolume\<close> and \<open>play\<close> write neither of the two volume fields.
\<close>

theorem lavalinkVolume_derived:
  "(v \<noteq> NaN \<longrightarrow> volume_derived (run (OpSetVolume v False) ack p)) \<and>
   (\<forall>t. po_volume options = Val v \<and> v \<noteq> NaN \<and>
        currentTrack (queue (select_current options p)) = Some t \<longrightarrow>
      volume_derived (run (OpPlay options) ack p)) \<and>
   (volume_derived p \<and> (\<forall>u. op \<noteq> OpSetVolume u True) \<longrightarrow> volume_derived (run op ack p)) \<and>
   (v \<noteq> NaN \<and> (\<forall>x \<in> set ops. \<not> ignores_decrementer (fst x)) \<longrightarrow>
      volume_derived (run_all ((OpSetVolume v False, ack) # ops) p)) \<and>
   (v \<noteq> NaN \<longrightarrow>
      lavalinkVolume (run (OpSetVolume v True) ack p) = floor2 (volume (run (OpSetVolume v True) ack p))) \<and>
   ((\<forall>u ign. op \<noteq> OpSetVolume u ign) \<and> (\<forall>options'. op \<noteq> OpPlay options') \<longrightarrow>
      volume (run op ack p) = volume p \<and> lavalinkVolume (run op ack p) = lavalinkVolume p)"
proof (intro conjI allI impI)
  assume "v \<noteq> NaN"
  then show "volume_derived (run (OpSetVolume v False) ack p)"
    by (intro volume_derived_fresh [of _ p v]) (simp_all add: setVolume_frame)
next
  fix t
  assume "po_volume options = Val v \<and> v \<noteq> NaN \<and>
          currentTrack (queue (select_current options p)) = Some t"
  then show "volume_derived (run (OpPlay options) ack p)"
    by (intro volume_derived_fresh [of _ p v])
       (simp_all add: play_frame apply_volume_option_volume select_current_frame)
next
  assume h: "volume_derived p \<and> (\<forall>u. op \<noteq> OpSetVolume u True)"
  then have "\<not> ignores_decrementer op"
    by (cases op) (auto simp: ignores_decrementer_def)
  with h show "volume_derived (run op ack p)"
    by (simp add: run_derived)
next
  assume h: "v \<noteq> NaN \<and> (\<forall>x \<in> set ops. \<not> ignores_decrementer (fst x))"
  then have "volume_derived (run (OpSetVolume v False) ack p)"
    by (intro volume_derived_fresh [of _ p v]) (simp_all add: setVolume_frame)
  with h show "volume_derived (run_all ((OpSetVolume v False, ack) # ops) p)"
    by (simp add: run_all_derived)
next
  assume "v \<noteq> NaN"
  then show "lavalinkVolume (run (OpSetVolume v True) ack p) =
             floor2 (volume (run (OpSetVolume v True) ack p))"
    by (simp add: setVolume_frame scaled_volume_def)
next
  assume h: "(\<forall>u ign. op \<noteq> OpSetVolume u ign) \<and> (\<forall>options'. op \<noteq> OpPlay options')"
  then show "volume (run op ack p) = volume p"
    using other_operations_frame [of op ack p] by blast
  from h show "lavalinkVolume (run op ack p) = lavalinkVolume p"
    using other_operations_frame [of op ack p] by blast
qed

theorem lavalinkVolume_derived_witness:
  "Fin 30 \<noteq> NaN \<and>
   has_decrementer (LavalinkManager half_player) \<and>
   volume_derived half_player \<and>
   volume_derived (run (OpSetVolume (Fin 30) False) True half_player) \<and>
   lavalinkVolume (run (OpSetVolume (Fin 30) False) True half_player) = Fin 15 \<and>
   volume_derived (run OpPause True half_player) \<and>
   volume_derived
     (run_all [(OpSetVolume (Fin 30) False, True), (OpPause, True), (OpSeek (Fin 7), False),
               (OpSet ''k'' JNull, True), (OpClearData, True)] half_player) \<and>
   lavalinkVolume (run (OpSetVolume (Fin 30) True) True half_player) = Fin 30 \<and>
   lavalinkVolume (run OpPause True half_player) = Fin 40"
proof -
  note inst = lavalinkVolume_derived [where v = "Fin 30" and ack = True and p = half_player
      and options = no_play_options and op = OpPause
      and ops = "[(OpPause, True), (OpSeek (Fin 7), False), (OpSet ''k'' JNull, True),
                  (OpClearData, True)]"]
  have number: "Fin 30 \<noteq> NaN"
    by simp
  have configured: "has_decrementer (LavalinkManager half_player)"
    by (simp add: half_player_def half_manager_def has_decrementer_def truthy_num_def)
  have start: "volume_derived half_player"
    by (simp add: volume_derived_def decremented_def floor2_def half_player_def
          half_manager_def decrementer_def)
  have none_ignores: "\<forall>x \<in> set [(OpPause, True), (OpSeek (Fin 7), False), (OpSet ''k'' JNull, True),
      (OpClearData, True)]. \<not> ignores_decrementer (fst x)"
    by (simp add: ignores_decrementer_def)
  have pause_is_other: "(\<forall>u. OpPause \<noteq> OpSetVolume u True)"
    "(\<forall>u ign. OpPause \<noteq> OpSetVolume u ign) \<and> (\<forall>options'. OpPause \<noteq> OpPlay options')"
    by simp_all
  have computed: "lavalinkVolume (run (OpSetVolume (Fin 30) False) True half_player) = Fin 15"
    "lavalinkVolume (run (OpSetVolume (Fin 30) True) True half_player) = Fin 30"
    "lavalinkVolume half_player = Fin 40"
    by (simp_all add: setVolume_frame clamp_volume_def scaled_volume_def floor2_def Math_max_def
          Math_min_def half_player_def half_manager_def has_decrementer_def decrementer_def
          truthy_num_def)
  from inst number have a: "volume_derived (run (OpSetVolume (Fin 30) False) True half_player)"
    by blast
  from inst start pause_is_other(1) have b: "volume_derived (run OpPause True half_player)"
    by blast
  from inst number none_ignores have c: "volume_derived
     (run_all [(OpSetVolume (Fin 30) False, True), (OpPause, True), (OpSeek (Fin 7), False),
               (OpSet ''k'' JNull, True), (OpClearData, True)] half_player)"
    by blast
  from inst pause_is_other(2) have d: "lavalinkVolume (run OpPause True half_player) = Fin 40"
    using computed(3) by metis
  from number configured start a computed(1) b c computed(2) d show ?thesis
    by blast
qed

subsection \<open>What setVolume sends\<close>





subsection \<open>Validation in play\<close>

lemma play_with_track:
  assumes "currentTrack (queue (select_current options p)) = Some t"
  shows "play options ack p =
    (let p1 = select_current options p;
         p3 = set_data ''lastposition'' (JNum (position p))
                (fst (apply_volume_option options p1));
         fo = finalOptions t (snd (apply_volume_option options p1)) p3
     in if invalid_position fo (duration (info t)) then (Threw InvalidPlayPosition, p3)
        else if invalid_volume fo then (Threw InvalidPlayVolume, p3)
        else if invalid_endTime fo (duration (info t)) then (Threw InvalidPlayEndTime, p3)
        else if endTime_before_position fo then (Threw EndTimeBeforePosition, p3)
        else updatePlayer ack
               \<lparr>u_guildId = guildId p,
                u_noReplace = Val (case po_noReplace options of Val b \<Rightarrow> b | _ \<Rightarrow> False),
                playerOptions = fo\<rparr> p3)"
proof -
  have "po_noReplace (snd (apply_volume_option options q)) = po_noReplace options" for q
    by (simp add: apply_volume_option_def Let_def split: property.split)
  then show ?thesis
    using assms
    by (simp add: play_def Let_def apply_volume_option_frame select_current_frame set_data_def)
qed

lemma play_payload:
  "finalOptions t (snd (apply_volume_option options p1))
     (set_data key x (fst (apply_volume_option options p1))) =
   (finalOptions t options p1)
     \<lparr>u_volume := (case po_volume options of
                     Absent \<Rightarrow> Val (lavalinkVolume p1)
                   | Undefined \<Rightarrow> Undefined
                   | Val v \<Rightarrow> if v = NaN then Val NaN
                            else Val (scaled_volume (clamp_volume v) False (LavalinkManager p1)))\<rparr>"
  by (simp add: finalOptions_def apply_volume_option_def Let_def set_data_def spread_def isNaN_def
      split: property.split)

lemma idle_track:
  "po_track options = Absent \<Longrightarrow> currentTrack (queue (select_current options idle_player)) = Some song"
  by (simp add: select_current_def idle_player_def Let_def)

text \<open>
  C5, as stated, fails for a negative volume: a volume option that is a number is
  clamped to 0..500 before the checks run, so \<open>play({ volume: -5 })\<close> is not
  refused. It returns and the payload carries the volume 0.
\<close>

theorem play_negative_volume_counterexample:
  "fst (play (no_play_options\<lparr>po_volume := Val (Fin (- 5))\<rparr>) True idle_player) = Returned () \<and>
   map (u_volume \<circ> playerOptions)
     (sent (snd (play (no_play_options\<lparr>po_volume := Val (Fin (- 5))\<rparr>) True idle_player))) = [Val (Fin 0)] \<and>
   sent idle_player = []"
  by (simp add: play_def apply_volume_option_def idle_player_def no_play_options_def song_def
      select_current_def Let_def size_q_def isTrack_def finalOptions_def spread_def
      invalid_position_def invalid_volume_def invalid_endTime_def endTime_before_position_def
      outside_track_def isNaN_def clamp_volume_def scaled_volume_def Math_max_def Math_min_def
      has_decrementer_def plain_manager_def updatePlayer_def set_data_def)

text \<open>
  C5, amended. Take a \<open>play\<close> call that finds the track \<open>t\<close> of duration \<open>d\<close>.
  The effective position \<open>pos\<close> is the position option, or 0 when the option is
  absent; the effective volume \<open>vol\<close> is \<open>lavalinkVolume\<close> when the option is
  absent, \<open>NaN\<close> when the option is \<open>NaN\<close>, and otherwise the option clamped to
  0..500 and multiplied by the decrementer; the end time is the option. When the
  effective position is a number that is \<open>NaN\<close>, negative or at least \<open>d\<close>, or the
  effective volume is \<open>NaN\<close> or negative, or the end time is \<open>NaN\<close>, negative or at
  least \<open>d\<close>, or the end time is less than the position, \<open>play\<close> throws one of
  its four validation errors and hands nothing to the node (a bad position always
  gives the position error). Otherwise it hands exactly one payload to the node and
  returns when the node acknowledges; this covers position 0 on a track of positive
  duration. Without a decrementer a volume option that is a number is clamped to a
  number that is neither \<open>NaN\<close> nor negative, so it never fails the volume check.
\<close>

theorem play_validation:
  assumes "currentTrack (queue (select_current options p)) = Some t"
    and "d = duration (info t)"
    and "pos = (case po_position options of Absent \<Rightarrow> Val (Fin 0) | x \<Rightarrow> x)"
    and "vol = (case po_volume options of
                  Absent \<Rightarrow> Val (lavalinkVolume p)
                | Undefined \<Rightarrow> Undefined
                | Val v \<Rightarrow> if v = NaN then Val NaN
                         else Val (scaled_volume (clamp_volume v) False (LavalinkManager p)))"
    and "endt = po_endTime options"
  shows
    "(if (\<exists>x. pos = Val x \<and> outside_track x d) \<or>
         (\<exists>x. vol = Val x \<and> (isNaN x \<or> js_lt x (Fin 0))) \<or>
         (\<exists>x. endt = Val x \<and> outside_track x d) \<or>
         (\<exists>x e. pos = Val x \<and> endt = Val e \<and> js_lt e x)
      then fst (play options ack p) \<in>
             {Threw InvalidPlayPosition, Threw InvalidPlayVolume, Threw InvalidPlayEndTime,
              Threw EndTimeBeforePosition} \<and>
           sent (snd (play options ack p)) = sent p
      else fst (play options ack p) = (if ack then Returned () else Threw TransportError) \<and>
           sent (snd (play options ack p)) =
             sent p @ [\<lparr>u_guildId = guildId p,
                        u_noReplace = Val (case po_noReplace options of Val b \<Rightarrow> b | _ \<Rightarrow> False),
                        playerOptions = (finalOptions t options p)\<lparr>u_volume := vol\<rparr>\<rparr>]) \<and>
     ((\<exists>x. pos = Val x \<and> outside_track x d) \<longrightarrow> fst (play options ack p) = Threw InvalidPlayPosition) \<and>
     (\<forall>v. po_volume options = Val v \<and> v \<noteq> NaN \<and> \<not> has_decrementer (LavalinkManager p) \<longrightarrow>
        vol = Val (clamp_volume v) \<and> \<not> isNaN (clamp_volume v) \<and> \<not> js_lt (clamp_volume v) (Fin 0))"
proof -
  let ?p1 = "select_current options p"
  let ?fo = "(finalOptions t options ?p1)\<lparr>u_volume := vol\<rparr>"
  have fo: "finalOptions t (snd (apply_volume_option options ?p1))
              (set_data ''lastposition'' (JNum (position p)) (fst (apply_volume_option options ?p1))) = ?fo"
    using assms by (simp add: play_payload select_current_frame split: property.split)
  have fo_eq: "finalOptions t options ?p1 = finalOptions t options p"
    by (simp add: finalOptions_def select_current_frame)
  have fields: "u_position ?fo = pos" "u_volume ?fo = vol" "u_endTime ?fo = endt"
    using assms by (simp_all add: finalOptions_def spread_def split: property.split)
  have checks:
    "invalid_position ?fo d = (\<exists>x. pos = Val x \<and> outside_track x d)"
    "invalid_volume ?fo = (\<exists>x. vol = Val x \<and> (isNaN x \<or> js_lt x (Fin 0)))"
    "invalid_endTime ?fo d = (\<exists>x. endt = Val x \<and> outside_track x d)"
    "endTime_before_position ?fo = (\<exists>x e. pos = Val x \<and> endt = Val e \<and> js_lt e x)"
    unfolding invalid_position_def invalid_volume_def invalid_endTime_def
      endTime_before_position_def fields
    by (auto split: property.split)
  have sent3: "sent (set_data ''lastposition'' (JNum (position p))
                 (fst (apply_volume_option options ?p1))) = sent p"
    by (simp add: set_data_def apply_volume_option_frame select_current_frame)
  have clamp: "\<not> isNaN (clamp_volume v) \<and> \<not> js_lt (clamp_volume v) (Fin 0)" if "v \<noteq> NaN" for v
    using that by (cases v) (auto simp: clamp_volume_def Math_max_def Math_min_def isNaN_def)
  have part1: "(if (\<exists>x. pos = Val x \<and> outside_track x d) \<or>
         (\<exists>x. vol = Val x \<and> (isNaN x \<or> js_lt x (Fin 0))) \<or>
         (\<exists>x. endt = Val x \<and> outside_track x d) \<or>
         (\<exists>x e. pos = Val x \<and> endt = Val e \<and> js_lt e x)
      then fst (play options ack p) \<in>
             {Threw InvalidPlayPosition, Threw InvalidPlayVolume, Threw InvalidPlayEndTime,
              Threw EndTimeBeforePosition} \<and>
           sent (snd (play options ack p)) = sent p
      else fst (play options ack p) = (if ack then Returned () else Threw TransportError) \<and>
           sent (snd (play options ack p)) =
             sent p @ [\<lparr>u_guildId = guildId p,
                        u_noReplace = Val (case po_noReplace options of Val b \<Rightarrow> b | _ \<Rightarrow> False),
                        playerOptions = (finalOptions t options p)\<lparr>u_volume := vol\<rparr>\<rparr>])"
    unfolding play_with_track [OF assms(1)] Let_def fo assms(2) [symmetric] checks fo_eq [symmetric]
    by (simp add: updatePlayer_def sent3)
  have part2: "(\<exists>x. pos = Val x \<and> outside_track x d) \<longrightarrow> fst (play options ack p) = Threw InvalidPlayPosition"
    unfolding play_with_track [OF assms(1)] Let_def fo assms(2) [symmetric] checks
    by simp
  have part3: "\<forall>v. po_volume options = Val v \<and> v \<noteq> NaN \<and> \<not> has_decrementer (LavalinkManager p) \<longrightarrow>
        vol = Val (clamp_volume v) \<and> \<not> isNaN (clamp_volume v) \<and> \<not> js_lt (clamp_volume v) (Fin 0)"
    using assms(4) clamp by (auto simp: scaled_volume_def)
  from part1 part2 part3 show ?thesis by blast
qed

theorem play_validation_witness:
  "fst (play no_play_options True idle_player) = Returned () \<and>
   map (u_position \<circ> playerOptions) (sent (snd (play no_play_options True idle_player))) = [Val (Fin 0)] \<and>
   fst (play (no_play_options\<lparr>po_position := Val (Fin 180000)\<rparr>) True idle_player) = Threw InvalidPlayPosition \<and>
   sent (snd (play (no_play_options\<lparr>po_position := Val (Fin 180000)\<rparr>) True idle_player)) = [] \<and>
   fst (play (no_play_options\<lparr>po_position := Val (Fin 179999), po_endTime := Val (Fin 5)\<rparr>) True idle_player)
     \<in> {Threw InvalidPlayPosition, Threw InvalidPlayVolume, Threw InvalidPlayEndTime, Threw EndTimeBeforePosition} \<and>
   sent (snd (play (no_play_options\<lparr>po_position := Val (Fin 179999), po_endTime := Val (Fin 5)\<rparr>) True idle_player)) = [] \<and>
   fst (play (no_play_options\<lparr>po_volume := Val NaN\<rparr>) True idle_player)
     \<in> {Threw InvalidPlayPosition, Threw InvalidPlayVolume, Threw InvalidPlayEndTime, Threw EndTimeBeforePosition}"
proof -
  have sent0: "sent idle_player = []" and lv: "lavalinkVolume idle_player = Fin 100"
    and d: "duration (info song) = Fin 180000"
    by (simp_all add: idle_player_def song_def)
  have a: "fst (play no_play_options True idle_player) = Returned () \<and>
           map (u_position \<circ> playerOptions) (sent (snd (play no_play_options True idle_player))) = [Val (Fin 0)]"
    using play_validation [OF idle_track refl refl refl refl, of no_play_options True]
    by (simp add: no_play_options_def sent0 lv d outside_track_def isNaN_def finalOptions_def spread_def)
  have b: "fst (play (no_play_options\<lparr>po_position := Val (Fin 180000)\<rparr>) True idle_player) = Threw InvalidPlayPosition \<and>
           sent (snd (play (no_play_options\<lparr>po_position := Val (Fin 180000)\<rparr>) True idle_player)) = []"
    using play_validation [OF idle_track refl refl refl refl,
            of "no_play_options\<lparr>po_position := Val (Fin 180000)\<rparr>" True]
    by (simp add: no_play_options_def sent0 lv d outside_track_def isNaN_def)
  have c: "fst (play (no_play_options\<lparr>po_position := Val (Fin 179999), po_endTime := Val (Fin 5)\<rparr>) True idle_player)
             \<in> {Threw InvalidPlayPosition, Threw InvalidPlayVolume, Threw InvalidPlayEndTime, Threw EndTimeBeforePosition} \<and>
           sent (snd (play (no_play_options\<lparr>po_position := Val (Fin 179999), po_endTime := Val (Fin 5)\<rparr>) True idle_player)) = []"
    using play_validation [OF idle_track refl refl refl refl,
            of "no_play_options\<lparr>po_position := Val (Fin 179999), po_endTime := Val (Fin 5)\<rparr>" True]
    by (simp add: no_play_options_def sent0 lv d outside_track_def isNaN_def)
  have e: "fst (play (no_play_options\<lparr>po_volume := Val NaN\<rparr>) True idle_player)
             \<in> {Threw InvalidPlayPosition, Threw InvalidPlayVolume, Threw InvalidPlayEndTime, Threw EndTimeBeforePosition}"
    using play_validation [OF idle_track refl refl refl refl,
            of "no_play_options\<lparr>po_volume := Val NaN\<rparr>" True]
    by (simp add: no_play_options_def sent0 lv d outside_track_def isNaN_def)
  from a b c e show ?thesis by blast
qed

text \<open>
  C10. A \<open>play\<close> call that finds a track writes to the player before it validates:
  afterwards, whether the call returned or threw, the data bag holds the position the
  player had under \<open>lastposition\<close>, a key that does not start with \<open>internal_\<close>
  and that \<open>clearData\<close> removes; and when the volume option is a number that is not
  \<open>NaN\<close>, \<open>volume\<close> is that number clamped to 0..500 and \<open>lavalinkVolume\<close> is
  the clamped number, scaled by the decrementer and floored to two decimals. When the
  call throws a validation error, nothing has been handed to the node.
\<close>

theorem play_mutates_before_validation:
  assumes "currentTrack (queue (select_current options p)) = Some t"
  shows "map_of (data (snd (play options ack p))) ''lastposition'' = Some (JNum (position p)) \<and>
         position (snd (play options ack p)) = position p \<and>
         \<not> startsWith ''lastposition'' ''internal_'' \<and>
         map_of (data (clearData (snd (play options ack p)))) ''lastposition'' = None \<and>
         (\<forall>v. po_volume options = Val v \<and> v \<noteq> NaN \<longrightarrow>
            volume (snd (play options ack p)) = clamp_volume v \<and>
            lavalinkVolume (snd (play options ack p)) =
              floor2 (scaled_volume (clamp_volume v) False (LavalinkManager p))) \<and>
         (fst (play options ack p) \<in>
            {Threw InvalidPlayPosition, Threw InvalidPlayVolume, Threw InvalidPlayEndTime,
             Threw EndTimeBeforePosition} \<longrightarrow>
          sent (snd (play options ack p)) = sent p)"
proof -
  let ?p3 = "set_data ''lastposition'' (JNum (position p))
               (fst (apply_volume_option options (select_current options p)))"
  have state: "snd (play options ack p) = ?p3 \<or>
               (\<exists>u. play options ack p =
                      (if ack then Returned () else Threw TransportError, ?p3\<lparr>sent := sent ?p3 @ [u]\<rparr>))"
    unfolding play_with_track [OF assms] Let_def
    by (auto simp: updatePlayer_def)
  have p3: "map_of (data ?p3) ''lastposition'' = Some (JNum (position p))"
    "position ?p3 = position p" "sent ?p3 = sent p"
    "volume ?p3 = volume (fst (apply_volume_option options (select_current options p)))"
    "lavalinkVolume ?p3 = lavalinkVolume (fst (apply_volume_option options (select_current options p)))"
    by (simp_all add: set_data_def update_conv' apply_volume_option_frame select_current_frame)
  have not_reserved: "\<not> startsWith ''lastposition'' ''internal_''"
    by (simp add: startsWith_def)
  have cleared: "map_of (data (clearData q)) ''lastposition'' = None" for q
    unfolding clearData_filter using not_reserved
    by (simp add: map_of_eq_None_iff image_iff)
  have transport: "Threw TransportError \<notin>
      {Threw InvalidPlayPosition, Threw InvalidPlayVolume, Threw InvalidPlayEndTime,
       Threw EndTimeBeforePosition}"
    "Returned () \<notin>
      {Threw InvalidPlayPosition, Threw InvalidPlayVolume, Threw InvalidPlayEndTime,
       Threw EndTimeBeforePosition}"
    by (simp_all add: InvalidPlayPosition_def InvalidPlayVolume_def InvalidPlayEndTime_def
          EndTimeBeforePosition_def)
  from state show ?thesis
  proof
    assume "snd (play options ack p) = ?p3"
    then show ?thesis
      using p3 not_reserved cleared
      by (simp add: apply_volume_option_volume select_current_frame)
  next
    assume "\<exists>u. play options ack p =
                 (if ack then Returned () else Threw TransportError, ?p3\<lparr>sent := sent ?p3 @ [u]\<rparr>)"
    then obtain u where u: "play options ack p =
        (if ack then Returned () else Threw TransportError, ?p3\<lparr>sent := sent ?p3 @ [u]\<rparr>)"
      by blast
    have "fst (play options ack p) \<notin>
            {Threw InvalidPlayPosition, Threw InvalidPlayVolume, Threw InvalidPlayEndTime,
             Threw EndTimeBeforePosition}"
      unfolding u using transport by (cases ack) simp_all
    then show ?thesis
      using p3 not_reserved cleared
      by (simp add: u apply_volume_option_volume select_current_frame)
  qed
qed

theorem play_mutates_before_validation_witness:
  "play (no_play_options\<lparr>po_volume := Val (Fin 50), po_position := Val (Fin (- 1))\<rparr>) True idle_player =
     (Threw InvalidPlayPosition,
      idle_player\<lparr>volume := Fin 50, lavalinkVolume := Fin 50,
        data := [(''internal_lastposition'', JNum (Fin 1500)), (''note'', JStr ''mine''),
                 (''lastposition'', JNum (Fin 1500))]\<rparr>) \<and>
   sent (snd (play (no_play_options\<lparr>po_volume := Val (Fin 50), po_position := Val (Fin (- 1))\<rparr>) True idle_player)) = [] \<and>
   map_of (data (snd (play (no_play_options\<lparr>po_volume := Val (Fin 50), po_position := Val (Fin (- 1))\<rparr>) True idle_player)))
     ''lastposition'' = Some (JNum (Fin 1500)) \<and>
   map_of (data (clearData (snd (play (no_play_options\<lparr>po_volume := Val (Fin 50), po_position := Val (Fin (- 1))\<rparr>) True idle_player))))
     ''lastposition'' = None"
  using play_mutates_before_validation [where
          options = "no_play_options\<lparr>po_volume := Val (Fin 50), po_position := Val (Fin (- 1))\<rparr>"
          and p = idle_player and t = song and ack = True]
  by (simp add: play_def apply_volume_option_def idle_player_def no_play_options_def song_def
      select_current_def Let_def size_q_def isTrack_def finalOptions_def spread_def
      invalid_position_def invalid_volume_def invalid_endTime_def endTime_before_position_def
      outside_track_def isNaN_def clamp_volume_def scaled_volume_def floor2_def
      Math_max_def Math_min_def has_decrementer_def plain_manager_def updatePlayer_def set_data_def)

subsection \<open>Search results\<close>

text \<open>
  The normalization returns a result for every answer that is not a playlist, and for
  every playlist answer whose \<open>data\<close> is an object with an array under \<open>tracks\<close>;
  the tracks of the result are then the raw tracks, each mapped through
  \<open>buildTrack\<close>.
\<close>

lemma get_prop_total: "v \<noteq> JUndefined \<Longrightarrow> v \<noteq> JNull \<Longrightarrow> \<exists>x. get_prop v k = Inr x"
  by (cases v) simp_all

lemma build_tracks_array: "\<exists>ts. build_tracks env (JArr xs) = Inr ts \<and> ts = map (buildTrack env) xs"
  by (cases xs) (simp_all add: build_tracks_def bindE_def truthy_num_def)

lemma resTracks_array:
  "r_loadType res \<noteq> LoadPlaylist \<Longrightarrow> \<exists>xs. resTracks res = JArr xs"
  by (cases "r_loadType res"; cases "r_data res") (simp_all add: resTracks_def)

lemma search_total_without_playlist:
  assumes "r_loadType res \<noteq> LoadPlaylist"
  shows "\<exists>r. search env res = Inr r \<and> s_playlist r = None"
proof -
  from resTracks_array [OF assms] obtain xs where "resTracks res = JArr xs" by blast
  with assms build_tracks_array [of env xs] show ?thesis
    by (auto simp: search_def Let_def bindE_def)
qed

lemma selected_raw_array: "\<exists>s. selected_raw env d (JArr xs) = Inr s"
  by (simp add: selected_raw_def bindE_def split: jsvalue.split)

lemma playlist_duration_array: "\<exists>x. playlist_duration env (JArr xs) = Inr x"
  by (simp add: playlist_duration_def bindE_def)

lemma playlist_thumbnail_array: "\<exists>x. playlist_thumbnail env d (JArr xs) i pl = Inr x"
proof -
  obtain s where "selected_raw env d (JArr xs) = Inr s"
    using selected_raw_array by blast
  then show ?thesis
    by (simp add: playlist_thumbnail_def bindE_def)
qed

lemma search_total_playlist_with_tracks:
  assumes "r_loadType res = LoadPlaylist" and "r_data res = JObj kvs"
    and "map_of kvs ''tracks'' = Some (JArr xs)"
  shows "\<exists>r. search env res = Inr r \<and> s_tracks r = map (buildTrack env) xs"
proof -
  have rt: "resTracks res = JArr xs"
    using assms by (simp add: resTracks_def opt_prop_def)
  obtain s where s: "selected_raw env (JObj kvs) (JArr xs) = Inr s"
    using selected_raw_array by blast
  obtain dur where dur: "playlist_duration env (JArr xs) = Inr dur"
    using playlist_duration_array by blast
  obtain th where th: "playlist_thumbnail env (JObj kvs) (JArr xs)
      (case map_of kvs ''info'' of None \<Rightarrow> JUndefined | Some v \<Rightarrow> v)
      (case map_of kvs ''pluginInfo'' of None \<Rightarrow> JUndefined | Some v \<Rightarrow> v) = Inr th"
    using playlist_thumbnail_array by blast
  obtain ts where ts: "build_tracks env (JArr xs) = Inr ts" "ts = map (buildTrack env) xs"
    using build_tracks_array by blast
  show ?thesis
    using assms
    by (simp add: search_def Let_def rt build_playlist_def bindE_def s dur th ts)
qed

text \<open>
  C1 does not hold of the code. For a playlist answer whose \<open>data\<close> has no
  \<open>tracks\<close>, \<open>res.data?.tracks\<close> is \<open>undefined\<close>, and the read of
  \<open>resTracks.length\<close> for the playlist's duration (line 214) throws a
  \<open>TypeError\<close>: the normalization throws instead of returning a result whose
  tracks are an empty array.
\<close>

theorem search_playlist_without_tracks_throws:
  "search env playlist_without_tracks = Inl (TypeError ''Cannot read properties of undefined (reading 'length')'')"
  by (simp add: search_def playlist_without_tracks_def resTracks_def opt_prop_def Let_def bindE_def
      build_playlist_def playlist_thumbnail_def selected_raw_def playlist_duration_def
      cannot_read_def)

end
